theory Spec2Isabelle
  imports Main "HOL-Library.AList" "HOL-Library.Log_Nat" "HOL-Library.Word"
begin

section \<open>Python values and errors\<close>

text \<open>
  Both modules raise exceptions; a raising call is modelled as a result \<open>Inl e\<close>.
  \<open>ProfilerError\<close> is the profiler-specific exception of
  \<open>great_expectations.exceptions\<close>, \<open>GenericException\<close> is Python's plain
  \<open>Exception\<close>; each carries its message. The others are the built-in exceptions that
  Python's arithmetic and \<open>assert\<close> raise.
\<close>

datatype error =
    ProfilerError string | GenericException string
  | TypeError | OverflowError | ValueError | ZeroDivisionError | AssertionError string

text \<open>
  A keyword argument of \<open>_get_iterator\<close> is either \<open>None\<close> or a string.
  \<open>kwargs.get(k)\<close> gives \<open>None\<close> for a key that was not passed.
\<close>

datatype pyval = PNone | PStr string

type_synonym kwargs = "(string \<times> pyval) list"

definition kwargs_get :: "kwargs \<Rightarrow> string \<Rightarrow> pyval" where
  "kwargs_get kw k = (case map_of kw k of None \<Rightarrow> PNone | Some v \<Rightarrow> v)"

text \<open>Python truthiness: \<open>None\<close> and the empty string are false.\<close>

fun truthy :: "pyval \<Rightarrow> bool" where
  "truthy PNone = False"
| "truthy (PStr s) = (s \<noteq> [])"

text \<open>What \<open>'{}'.format(v)\<close> prints.\<close>

fun format_val :: "pyval \<Rightarrow> string" where
  "format_val PNone = ''None''"
| "format_val (PStr s) = s"

section \<open>DatabricksTableBatchKwargsGenerator\<close>

text \<open>
  The generator holds the database name and the Spark session, which is \<open>None\<close> when
  none could be created. Of the session only \<open>sql('show tables in ...').collect()\<close> is
  used: it is a function from the query text to the \<open>tableName\<close> of each row.
\<close>

record generator =
  database :: string
  spark :: "(string \<Rightarrow> string list) option"

definition get_available_data_asset_names ::
    "generator \<Rightarrow> (string \<times> (string \<times> string) list) list" where
  "get_available_data_asset_names g =
     (case spark g of
        None \<Rightarrow> [(''names'', [])]
      | Some sql \<Rightarrow>
          [(''names'', map (\<lambda>tableName. (tableName, ''table''))
                           (sql (''show tables in '' @ database g)))])"

text \<open>
  \<open>_get_iterator\<close> returns an iterator over a list of dicts; the model returns the list.
  A dict is an association list.
\<close>

definition get_iterator ::
    "generator \<Rightarrow> string \<Rightarrow> kwargs \<Rightarrow> error + (string \<times> string) list list" where
  "get_iterator g generator_asset kw =
     (let query = ''select * from '' @ database g @ ''.'' @ generator_asset in
      if truthy (kwargs_get kw ''partition'') then
        if \<not> truthy (kwargs_get kw ''date_field'') then
          Inl (GenericException ''Must specify date_field when using partition.'')
        else
          Inr [[(''query'',
                 query @ '' where '' @ format_val (kwargs_get kw ''date_field'')
                       @ '' = '' @ [CHR 0x22] @ format_val (kwargs_get kw ''partition'')
                       @ [CHR 0x22])]]
      else Inr [[(''query'', query)]])"

section \<open>BasicSuiteBuilderProfiler: configuration\<close>

text \<open>
  The configuration of \<open>_profile\<close> is \<open>None\<close>, the string \<open>"demo"\<close> or a dict. The
  values the profiler expects in the dict are lists of names, but a dict can hold any
  object and the source checks no types. The model has the values that differ in what
  the source does with them: \<open>None\<close>, a \<open>bool\<close>, an \<open>int\<close>, a string (iterated
  character by character), a list of names and a tuple of names. A tuple stands for every
  iterable that is not a list (a tuple, a set, the keys of a dict).
\<close>

datatype cfg_value =
    CNone | CBool bool | CInt int | CStr string | CList "string list" | CTuple "string list"

type_synonym config_dict = "(string \<times> cfg_value) list"

datatype configuration = ConfigNone | ConfigDemo | ConfigDict config_dict

text \<open>\<open>if configuration:\<close> holds for a dict with at least one key.\<close>

fun configuration_truthy :: "configuration \<Rightarrow> bool" where
  "configuration_truthy ConfigNone = False"
| "configuration_truthy ConfigDemo = True"
| "configuration_truthy (ConfigDict d) = (d \<noteq> [])"

fun config_dict_of :: "configuration \<Rightarrow> config_dict" where
  "config_dict_of (ConfigDict d) = d"
| "config_dict_of _ = []"

text \<open>\<open>key in configuration\<close>.\<close>

definition has_key :: "config_dict \<Rightarrow> string \<Rightarrow> bool" where
  "has_key d k = (map_of d k \<noteq> None)"

text \<open>\<open>configuration[key]\<close>, read only where \<open>key in configuration\<close> holds.\<close>

definition item :: "config_dict \<Rightarrow> string \<Rightarrow> cfg_value" where
  "item d k = (case map_of d k of Some v \<Rightarrow> v | None \<Rightarrow> CNone)"

text \<open>\<open>if v:\<close> for a configuration value.\<close>

fun cfg_truthy :: "cfg_value \<Rightarrow> bool" where
  "cfg_truthy CNone = False"
| "cfg_truthy (CBool b) = b"
| "cfg_truthy (CInt n) = (n \<noteq> 0)"
| "cfg_truthy (CStr s) = (s \<noteq> [])"
| "cfg_truthy (CList xs) = (xs \<noteq> [])"
| "cfg_truthy (CTuple xs) = (xs \<noteq> [])"

text \<open>
  \<open>v in [False, None, []]\<close>: \<open>v\<close> equals one of the three. \<open>0\<close> equals \<open>False\<close>; the
  empty tuple and the empty string equal none of them.
\<close>

fun in_false_none_empty :: "cfg_value \<Rightarrow> bool" where
  "in_false_none_empty CNone = True"
| "in_false_none_empty (CBool b) = (\<not> b)"
| "in_false_none_empty (CInt n) = (n = 0)"
| "in_false_none_empty (CStr s) = False"
| "in_false_none_empty (CList xs) = (xs = [])"
| "in_false_none_empty (CTuple xs) = False"

text \<open>
  \<open>for x in v\<close> and \<open>set(v)\<close>: the elements of a list or tuple, the characters of a
  string; \<open>TypeError\<close> for a value that is not iterable.
\<close>

fun iterate :: "cfg_value \<Rightarrow> error + string list" where
  "iterate (CList xs) = Inr xs"
| "iterate (CTuple xs) = Inr xs"
| "iterate (CStr s) = Inr (map (\<lambda>c. [c]) s)"
| "iterate _ = Inl TypeError"

text \<open>The names a value holds: what iterating it gives, nothing if it cannot be iterated.\<close>

definition cfg_names :: "cfg_value \<Rightarrow> string list" where
  "cfg_names v = (case iterate v of Inr xs \<Rightarrow> xs | Inl e \<Rightarrow> [])"

text \<open>A value the source can use where it expects names: it is falsy or iterable.\<close>

fun falsy_or_iterable :: "cfg_value \<Rightarrow> bool" where
  "falsy_or_iterable CNone = True"
| "falsy_or_iterable (CBool b) = (\<not> b)"
| "falsy_or_iterable (CInt n) = (n = 0)"
| "falsy_or_iterable (CStr s) = True"
| "falsy_or_iterable (CList xs) = True"
| "falsy_or_iterable (CTuple xs) = True"

section \<open>BasicSuiteBuilderProfiler: the dataset and its suite\<close>

text \<open>
  The dataset is an object of the validation framework. The profiler reads its table
  columns (\<open>get_table_columns\<close>), the expectation types it offers
  (\<open>list_available_expectation_types\<close>) and its current expectation suite
  (\<open>get_expectation_suite\<close>). A suite is a list of expectations and a \<open>meta\<close> dict.
\<close>

datatype pyarg = ANone | ABool bool | AStr string | AInt int | AList "pyarg list"

record expectation =
  expectation_type :: string
  exp_kwargs :: "(string \<times> pyarg) list"

datatype meta_value =
    MetaColumns "(string \<times> (string \<times> string) list) list"
  | MetaSet "string list"
  | MetaOther string

record expectation_suite =
  expectations :: "expectation list"
  meta :: "(string \<times> meta_value) list"

record dataset =
  table_columns :: "string list"
  available_expectation_types :: "string list"
  suite :: expectation_suite

text \<open>
  \<open>_build_column_description_metadata\<close>: one entry \<open>{"description": ""}\<close> per column
  under \<open>meta["columns"]\<close>; an empty \<open>meta\<close> also gets \<open>"notes": {""}\<close>, the set holding
  the empty string.
\<close>

definition build_column_description_metadata :: "dataset \<Rightarrow> expectation_suite" where
  "build_column_description_metadata ds =
     (let columns = table_columns ds;
          expectation_suite = suite ds;
          meta_columns =
            fold (\<lambda>column m. AList.update column [(''description'', [])] m) columns []
      in if meta expectation_suite = [] then
           expectation_suite\<lparr>meta := [(''columns'', MetaColumns meta_columns),
                                      (''notes'', MetaSet [[]])]\<rparr>
         else
           expectation_suite\<lparr>meta := AList.update ''columns'' (MetaColumns meta_columns)
                                        (meta expectation_suite)\<rparr>)"

section \<open>BasicSuiteBuilderProfiler: \<open>_profile\<close>\<close>

text \<open>The loop of \<open>_check_that_expectations_are_available\<close>: the first unavailable name raises.\<close>

fun expectations_loop :: "dataset \<Rightarrow> string list \<Rightarrow> error + unit" where
  "expectations_loop ds [] = Inr ()"
| "expectations_loop ds (expectation # rest) =
     (if expectation \<notin> set (available_expectation_types ds)
      then Inl (ProfilerError (''Expectation '' @ expectation @ '' is not available.''))
      else expectations_loop ds rest)"

definition check_that_expectations_are_available :: "dataset \<Rightarrow> cfg_value \<Rightarrow> error + unit" where
  "check_that_expectations_are_available ds names =
     (if cfg_truthy names then
        (case iterate names of Inl e \<Rightarrow> Inl e | Inr xs \<Rightarrow> expectations_loop ds xs)
      else Inr ())"

text \<open>The loop of \<open>_check_that_columns_exist\<close>.\<close>

fun columns_loop :: "dataset \<Rightarrow> string list \<Rightarrow> error + unit" where
  "columns_loop ds [] = Inr ()"
| "columns_loop ds (column # rest) =
     (if column \<notin> set (table_columns ds)
      then Inl (ProfilerError (''Column '' @ column @ '' does not exist.''))
      else columns_loop ds rest)"

definition check_that_columns_exist :: "dataset \<Rightarrow> cfg_value \<Rightarrow> error + unit" where
  "check_that_columns_exist ds columns =
     (if cfg_truthy columns then
        (case iterate columns of Inl e \<Rightarrow> Inl e | Inr xs \<Rightarrow> columns_loop ds xs)
      else Inr ())"

text \<open>
  Lines 390 to 408 of \<open>_profile\<close>: the pair \<open>(included_expectations,
  excluded_expectations)\<close>. Both start as \<open>[]\<close>; a falsy \<open>included_expectations\<close> of the
  configuration becomes \<open>None\<close>.
\<close>

definition configured_expectations ::
    "dataset \<Rightarrow> configuration \<Rightarrow> error + cfg_value \<times> cfg_value" where
  "configured_expectations ds configuration =
     (let d = config_dict_of configuration in
      if \<not> configuration_truthy configuration then Inr (CList [], CList [])
      else if has_key d ''included_expectations'' \<and> has_key d ''excluded_expectations'' then
        Inl (ProfilerError
          ''Please specify either `included_expectations` or `excluded_expectations`.'')
      else
        let included_expectations =
              (if has_key d ''included_expectations'' then
                 (if in_false_none_empty (item d ''included_expectations'') then CNone
                  else item d ''included_expectations'')
               else CList [])
        in
        case (if has_key d ''included_expectations''
              then check_that_expectations_are_available ds included_expectations
              else Inr ()) of
          Inl e \<Rightarrow> Inl e
        | Inr _ \<Rightarrow>
            if has_key d ''excluded_expectations'' then
              (case check_that_expectations_are_available ds (item d ''excluded_expectations'') of
                 Inl e \<Rightarrow> Inl e
               | Inr _ \<Rightarrow> Inr (included_expectations, item d ''excluded_expectations''))
            else Inr (included_expectations, CList []))"

text \<open>
  Lines 389 and 410 to 423: \<open>selected_columns\<close>. With \<open>excluded_columns\<close> the source builds
  the set \<open>set(existing_columns) - set(excluded_columns)\<close>, which raises \<open>TypeError\<close> when
  \<open>excluded_columns\<close> is not iterable. The iteration order of a set is left open by
  Python; the model lists it in table order without repetitions.
\<close>

definition configured_columns ::
    "string list \<Rightarrow> configuration \<Rightarrow> error + cfg_value" where
  "configured_columns existing_columns configuration =
     (let d = config_dict_of configuration in
      if \<not> configuration_truthy configuration then Inr (CList existing_columns)
      else if has_key d ''included_columns'' \<and> has_key d ''excluded_columns'' then
        Inl (ProfilerError ''Please specify either `excluded_columns` or `included_columns`.'')
      else if has_key d ''included_columns'' then Inr (item d ''included_columns'')
      else if has_key d ''excluded_columns'' then
        (case (if in_false_none_empty (item d ''excluded_columns'') then Inr []
               else iterate (item d ''excluded_columns'')) of
           Inl e \<Rightarrow> Inl e
         | Inr excluded_columns \<Rightarrow>
             Inr (CTuple (remdups (filter (\<lambda>c. c \<notin> set excluded_columns) existing_columns))))
      else Inr (CList existing_columns))"

text \<open>
  What \<open>_profile\<close> does after the configuration is read: it hands over to
  \<open>_demo_profile\<close>, returns the suite emptied of expectations, or goes on to create
  expectations for \<open>selected_columns\<close>, filtered by the included and excluded expectation
  types.
\<close>

datatype profile_outcome =
    DemoProfile
  | EmptySuite expectation_suite
  | ProfileColumns (columns_of: cfg_value) (included_of: cfg_value) (excluded_of: cfg_value)

definition profile :: "dataset \<Rightarrow> configuration \<Rightarrow> error + profile_outcome" where
  "profile ds configuration =
     (if configuration = ConfigDemo then Inr DemoProfile
      else
        let existing_columns = table_columns ds in
        case configured_expectations ds configuration of
          Inl e \<Rightarrow> Inl e
        | Inr (included, excluded) \<Rightarrow>
            (case configured_columns existing_columns configuration of
               Inl e \<Rightarrow> Inl e
             | Inr selected \<Rightarrow>
                 (case check_that_columns_exist ds selected of
                    Inl e \<Rightarrow> Inl e
                  | Inr _ \<Rightarrow>
                      if included = CNone then
                        Inr (EmptySuite ((build_column_description_metadata ds)\<lparr>expectations := []\<rparr>))
                      else Inr (ProfileColumns selected included excluded))))"


section \<open>Python floats\<close>

text \<open>
  A Python \<open>float\<close> is an IEEE 754 binary64 value: a finite value (a rational with a
  53 bit significand), an infinity or a NaN. The two zeros are not told apart; no
  operation modelled here depends on the sign of a zero.
\<close>

datatype float64 = Finite rat | PosInf | NegInf | NaN

text \<open>
  \<open>ilog2 x\<close> is the binary exponent of a positive rational: the \<open>k\<close> with
  \<open>2^k \<le> x < 2^(k+1)\<close>. It is the difference of the bit lengths of numerator and
  denominator, or one less.
\<close>

definition ilog2 :: "rat \<Rightarrow> int" where
  "ilog2 x = (case quotient_of x of (p, q) \<Rightarrow>
               let d = bitlen p - bitlen q in if x < 2 powi d then d - 1 else d)"

text \<open>
  Rounding to the nearest integer, a tie going to the even neighbour.
\<close>

definition round_half_even :: "rat \<Rightarrow> int" where
  "round_half_even q =
     (let f = \<lfloor>q\<rfloor>; r = q - of_int f in
      if r < 1 / 2 then f else if 1 / 2 < r then f + 1 else if even f then f else f + 1)"

text \<open>
  Rounding a positive rational to binary64 (round to nearest, ties to even): the
  significand is scaled to 53 bits, or to the fixed exponent \<open>-1074\<close> in the subnormal
  range, and rounded there. A result that reaches \<open>2^1024\<close> overflows to infinity.
\<close>

definition float_exponent :: "rat \<Rightarrow> int" where
  "float_exponent x = max (ilog2 x - 52) (- 1074)"

definition round_magnitude :: "rat \<Rightarrow> rat" where
  "round_magnitude x =
     of_int (round_half_even (x / 2 powi float_exponent x)) * 2 powi float_exponent x"

definition overflow_threshold :: rat where
  "overflow_threshold = 2 ^ 1024"

definition round_to_float :: "rat \<Rightarrow> float64" where
  "round_to_float x =
     (if x = 0 then Finite 0
      else
        let r = round_magnitude \<bar>x\<bar>
        in if overflow_threshold \<le> r then (if 0 < x then PosInf else NegInf)
           else Finite (sgn x * r))"

text \<open>
  A finite value is a binary64 value when rounding leaves it unchanged.
\<close>

definition is_float64 :: "float64 \<Rightarrow> bool" where
  "is_float64 f = (case f of Finite x \<Rightarrow> round_to_float x = Finite x | _ \<Rightarrow> True)"

text \<open>
  The arithmetic of Python floats: the exact result, rounded; the usual rules for
  infinities and NaN. Division by zero raises \<open>ZeroDivisionError\<close> in Python.
\<close>

fun fneg :: "float64 \<Rightarrow> float64" where
  "fneg (Finite x) = Finite (- x)"
| "fneg PosInf = NegInf"
| "fneg NegInf = PosInf"
| "fneg NaN = NaN"

fun fadd :: "float64 \<Rightarrow> float64 \<Rightarrow> float64" where
  "fadd (Finite a) (Finite b) = round_to_float (a + b)"
| "fadd NaN _ = NaN"
| "fadd _ NaN = NaN"
| "fadd PosInf NegInf = NaN"
| "fadd NegInf PosInf = NaN"
| "fadd PosInf _ = PosInf"
| "fadd _ PosInf = PosInf"
| "fadd NegInf _ = NegInf"
| "fadd _ NegInf = NegInf"

definition fsub :: "float64 \<Rightarrow> float64 \<Rightarrow> float64" where
  "fsub a b = fadd a (fneg b)"

text \<open>
  Comparisons: every comparison with a NaN is false.
\<close>

fun float_le :: "float64 \<Rightarrow> float64 \<Rightarrow> bool" where
  "float_le NaN _ = False"
| "float_le _ NaN = False"
| "float_le NegInf _ = True"
| "float_le _ PosInf = True"
| "float_le (Finite a) (Finite b) = (a \<le> b)"
| "float_le _ _ = False"

fun float_less :: "float64 \<Rightarrow> float64 \<Rightarrow> bool" where
  "float_less NaN _ = False"
| "float_less _ NaN = False"
| "float_less PosInf _ = False"
| "float_less _ NegInf = False"
| "float_less (Finite a) (Finite b) = (a < b)"
| "float_less _ _ = True"

fun fmul :: "float64 \<Rightarrow> float64 \<Rightarrow> float64" where
  "fmul (Finite a) (Finite b) = round_to_float (a * b)"
| "fmul NaN _ = NaN"
| "fmul _ NaN = NaN"
| "fmul (Finite a) PosInf = (if a = 0 then NaN else if 0 < a then PosInf else NegInf)"
| "fmul (Finite a) NegInf = (if a = 0 then NaN else if 0 < a then NegInf else PosInf)"
| "fmul PosInf (Finite b) = (if b = 0 then NaN else if 0 < b then PosInf else NegInf)"
| "fmul NegInf (Finite b) = (if b = 0 then NaN else if 0 < b then NegInf else PosInf)"
| "fmul PosInf PosInf = PosInf"
| "fmul NegInf NegInf = PosInf"
| "fmul PosInf NegInf = NegInf"
| "fmul NegInf PosInf = NegInf"

fun fdiv :: "float64 \<Rightarrow> float64 \<Rightarrow> error + float64" where
  "fdiv a (Finite b) =
     (if b = 0 then Inl ZeroDivisionError
      else Inr (case a of
                  Finite x \<Rightarrow> round_to_float (x / b)
                | PosInf \<Rightarrow> (if 0 < b then PosInf else NegInf)
                | NegInf \<Rightarrow> (if 0 < b then NegInf else PosInf)
                | NaN \<Rightarrow> NaN))"
| "fdiv NaN _ = Inr NaN"
| "fdiv _ NaN = Inr NaN"
| "fdiv (Finite a) _ = Inr (Finite 0)"
| "fdiv _ _ = Inr NaN"

section \<open>Python numbers\<close>

text \<open>
  A Python number is an \<open>int\<close> (unbounded) or a \<open>float\<close>. In mixed arithmetic the \<open>int\<close> is converted to a \<open>float\<close> first, which
  raises \<open>OverflowError\<close> when it is too large; \<open>int - int\<close> stays exact.
\<close>

datatype pynum = PInt int | PFloat float64

definition int_to_float :: "int \<Rightarrow> error + float64" where
  "int_to_float n =
     (case round_to_float (of_int n) of
        Finite r \<Rightarrow> Inr (Finite r)
      | _ \<Rightarrow> Inl OverflowError)"

fun to_float :: "pynum \<Rightarrow> error + float64" where
  "to_float (PInt n) = int_to_float n"
| "to_float (PFloat f) = Inr f"

definition float_op ::
    "(float64 \<Rightarrow> float64 \<Rightarrow> float64) \<Rightarrow> pynum \<Rightarrow> pynum \<Rightarrow> error + pynum" where
  "float_op f a b =
     (case to_float a of
        Inl e \<Rightarrow> Inl e
      | Inr x \<Rightarrow> (case to_float b of Inl e \<Rightarrow> Inl e | Inr y \<Rightarrow> Inr (PFloat (f x y))))"

fun num_add :: "pynum \<Rightarrow> pynum \<Rightarrow> error + pynum" where
  "num_add (PInt a) (PInt b) = Inr (PInt (a + b))"
| "num_add a b = float_op fadd a b"

fun num_sub :: "pynum \<Rightarrow> pynum \<Rightarrow> error + pynum" where
  "num_sub (PInt a) (PInt b) = Inr (PInt (a - b))"
| "num_sub a b = float_op fsub a b"

fun num_mul :: "pynum \<Rightarrow> pynum \<Rightarrow> error + pynum" where
  "num_mul (PInt a) (PInt b) = Inr (PInt (a * b))"
| "num_mul a b = float_op fmul a b"

text \<open>
  Python compares an \<open>int\<close> with a \<open>float\<close> by their exact values.
\<close>

fun exact_value :: "pynum \<Rightarrow> float64" where
  "exact_value (PInt n) = Finite (of_int n)"
| "exact_value (PFloat f) = f"

definition num_le :: "pynum \<Rightarrow> pynum \<Rightarrow> bool" where
  "num_le a b = float_le (exact_value a) (exact_value b)"

text \<open>
  \<open>int(x)\<close> truncates a float towards zero and raises on an infinity or a NaN.
\<close>

fun py_int :: "pynum \<Rightarrow> error + int" where
  "py_int (PInt n) = Inr n"
| "py_int (PFloat (Finite x)) = Inr (if 0 \<le> x then \<lfloor>x\<rfloor> else \<lceil>x\<rceil>)"
| "py_int (PFloat NaN) = Inl ValueError"
| "py_int (PFloat _) = Inl OverflowError"

text \<open>
  A number is well formed when it is an \<open>int\<close> or a binary64 value.
\<close>

fun valid_num :: "pynum \<Rightarrow> bool" where
  "valid_num (PInt n) = True"
| "valid_num (PFloat f) = is_float64 f"

section \<open>Observed statistics\<close>

text \<open>
  The statistic a dataset observes is a Python number or a \<open>numpy.int64\<close>, the type in
  which a pandas dataset reports the minimum and the maximum of an integer column. The
  arithmetic of \<open>numpy.int64\<close> wraps around: \<open>v - 1\<close> and \<open>v + 1\<close> with the Python
  \<open>int\<close> \<open>1\<close> are again \<open>numpy.int64\<close>, computed modulo \<open>2^64\<close>. A \<open>numpy.float64\<close>
  behaves as a Python \<open>float\<close> in everything modelled here.
\<close>

datatype statistic = PyNum pynum | NpInt64 "64 word"

text \<open>\<open>v - 1\<close> and \<open>v + 1\<close>.\<close>

fun minus_one :: "statistic \<Rightarrow> error + statistic" where
  "minus_one (PyNum v) =
     (case num_sub v (PInt 1) of Inl e \<Rightarrow> Inl e | Inr r \<Rightarrow> Inr (PyNum r))"
| "minus_one (NpInt64 w) = Inr (NpInt64 (w - 1))"

fun plus_one :: "statistic \<Rightarrow> error + statistic" where
  "plus_one (PyNum v) =
     (case num_add v (PInt 1) of Inl e \<Rightarrow> Inl e | Inr r \<Rightarrow> Inr (PyNum r))"
| "plus_one (NpInt64 w) = Inr (NpInt64 (w + 1))"

text \<open>
  Comparisons are by exact value; a \<open>numpy.int64\<close> is read as a signed integer.
\<close>

fun statistic_value :: "statistic \<Rightarrow> float64" where
  "statistic_value (PyNum v) = exact_value v"
| "statistic_value (NpInt64 w) = Finite (of_int (sint w))"

definition statistic_le :: "statistic \<Rightarrow> statistic \<Rightarrow> bool" where
  "statistic_le a b = float_le (statistic_value a) (statistic_value b)"

text \<open>
  \<open>_is_nan\<close>: \<open>np.isnan(value)\<close>, and \<open>False\<close> when that raises \<open>TypeError\<close> (as it
  does for \<open>None\<close>).
\<close>

fun is_nan :: "statistic option \<Rightarrow> bool" where
  "is_nan (Some (PyNum (PFloat NaN))) = True"
| "is_nan _ = False"

section \<open>BasicSuiteBuilderProfiler: creating expectations\<close>

text \<open>
  The profiler creates expectations by calling methods of the dataset. A run of a
  creating function is modelled by the list of the calls it makes, in order, or by the
  exception that ends it. A call is recorded with the column and the bounds it passes
  (\<open>None\<close> for a probing call that only asks for the observed value); the arguments
  \<open>result_format\<close> and \<open>catch_exceptions\<close> are not recorded.
\<close>

datatype call =
    SetConfigValue string bool
  | ExpectTableRowCountToBeBetween "pynum option" "pynum option"
  | ExpectColumnValuesToNotBeNull string "pynum option"
  | ExpectColumnMinToBeBetween string "statistic option" "statistic option"
  | ExpectColumnMaxToBeBetween string "statistic option" "statistic option"
  | ExpectColumnMeanToBeBetween string "statistic option" "statistic option"
  | ExpectColumnMedianToBeBetween string "statistic option" "statistic option"
  | ExpectColumnQuantileValuesToBeBetween string "pynum list"
      "(statistic option \<times> statistic option) list"

text \<open>
  What the dataset answers: the result of the probing call
  \<open>expect_column_quantile_values_to_be_between\<close> (its \<open>exception_info\<close>, reduced to the
  pair of \<open>exception_traceback\<close> and \<open>exception_message\<close>, and the observed quantiles
  and values), and for one column the result of the null check and the observed minimum,
  maximum, mean and median, each of which may be \<open>None\<close>.
\<close>

record quantile_result =
  exception_info :: "(pyval \<times> pyval) option"
  observed_quantiles :: "pynum list"
  observed_values :: "statistic option list"

record column_results =
  not_null_success :: bool
  unexpected_percent :: "pynum option"
  observed_min :: "statistic option"
  observed_max :: "statistic option"
  observed_mean :: "statistic option"
  observed_median :: "statistic option"
  quantile_results :: quantile_result

text \<open>
  Sequencing: the calls of the first part, then those of the second; the first
  exception ends the run.
\<close>

definition then_calls :: "error + call list \<Rightarrow> error + call list \<Rightarrow> error + call list" where
  "then_calls a b =
     (case a of
        Inl e \<Rightarrow> Inl e
      | Inr xs \<Rightarrow> (case b of Inl e \<Rightarrow> Inl e | Inr ys \<Rightarrow> Inr (xs @ ys)))"

text \<open>
  \<open>max(a, b)\<close> of two numbers: \<open>b\<close> if it is greater than \<open>a\<close>, else \<open>a\<close>.
\<close>

definition py_max :: "pynum \<Rightarrow> pynum \<Rightarrow> pynum" where
  "py_max a b = (if float_less (exact_value a) (exact_value b) then b else a)"

text \<open>
  \<open>_create_non_nullity_expectations\<close>: when the null check fails, a second call with
  \<open>mostly = max(0.001, (100.0 - unexpected_percent - 10) / 100.0)\<close>.
\<close>

definition create_non_nullity_expectations :: "column_results \<Rightarrow> string \<Rightarrow> error + call list" where
  "create_non_nullity_expectations ds column =
     (if \<not> not_null_success ds then
        (case unexpected_percent ds of
           None \<Rightarrow> Inl TypeError
         | Some p \<Rightarrow>
             (case to_float p of
                Inl e \<Rightarrow> Inl e
              | Inr percent \<Rightarrow>
                  (case fdiv (fsub (fsub (Finite 100) percent) (Finite 10))
                             (Finite 100) of
                     Inl e \<Rightarrow> Inl e
                   | Inr q \<Rightarrow>
                       let mostly_value = py_max (PFloat (round_to_float (1 / 1000))) (PFloat q)
                       in Inr [ExpectColumnValuesToNotBeNull column None,
                               ExpectColumnValuesToNotBeNull column (Some mostly_value)])))
      else Inr [ExpectColumnValuesToNotBeNull column None])"

text \<open>
  One of the four blocks of \<open>_create_expectations_for_numeric_column\<close> for the minimum,
  maximum, mean and median: the probing call, then, unless the observed value is NaN, the
  call with the bounds \<open>observed - 1\<close> and \<open>observed + 1\<close>. An observed value \<open>None\<close>
  raises \<open>TypeError\<close> at the subtraction.
\<close>

definition range_expectation ::
    "(string \<Rightarrow> statistic option \<Rightarrow> statistic option \<Rightarrow> call) \<Rightarrow> string \<Rightarrow>
     statistic option \<Rightarrow> error + call list" where
  "range_expectation expect column observed =
     (if \<not> is_nan observed then
        (case observed of
           None \<Rightarrow> Inl TypeError
         | Some v \<Rightarrow>
             (case minus_one v of
                Inl e \<Rightarrow> Inl e
              | Inr lo \<Rightarrow>
                  (case plus_one v of
                     Inl e \<Rightarrow> Inl e
                   | Inr hi \<Rightarrow>
                       Inr [expect column None None, expect column (Some lo) (Some hi)])))
      else Inr [expect column None None])"

text \<open>
  \<open>[[v - 1, v + 1] for v in values]\<close>.
\<close>

fun value_ranges ::
    "statistic option list \<Rightarrow> error + (statistic option \<times> statistic option) list" where
  "value_ranges [] = Inr []"
| "value_ranges (None # vs) = Inl TypeError"
| "value_ranges (Some v # vs) =
     (case minus_one v of
        Inl e \<Rightarrow> Inl e
      | Inr lo \<Rightarrow>
          (case plus_one v of
             Inl e \<Rightarrow> Inl e
           | Inr hi \<Rightarrow>
               (case value_ranges vs of
                  Inl e \<Rightarrow> Inl e
                | Inr rest \<Rightarrow> Inr ((Some lo, Some hi) # rest))))"

text \<open>
  The quantile block: the probing call for the quantiles 0.05, 0.25, 0.5, 0.75 and 0.95;
  unless it reports an exception, the call with the observed quantiles and the ranges
  around the observed values, between two changes of \<open>interactive_evaluation\<close>.
\<close>

definition quantile_expectation :: "column_results \<Rightarrow> string \<Rightarrow> error + call list" where
  "quantile_expectation ds column =
     (let quantile_result = quantile_results ds;
          probe = ExpectColumnQuantileValuesToBeBetween column
                    (map (\<lambda>q. PFloat (round_to_float q)) [1 / 20, 1 / 4, 1 / 2, 3 / 4, 19 / 20])
                    (replicate 5 (None, None))
      in if (case exception_info quantile_result of
               None \<Rightarrow> False
             | Some (exception_traceback, exception_message) \<Rightarrow>
                 truthy exception_traceback \<or> truthy exception_message)
         then Inr [probe]
         else
           (case value_ranges (observed_values quantile_result) of
              Inl e \<Rightarrow> Inl e
            | Inr ranges \<Rightarrow>
                Inr [probe,
                     SetConfigValue ''interactive_evaluation'' False,
                     ExpectColumnQuantileValuesToBeBetween column
                       (observed_quantiles quantile_result) ranges,
                     SetConfigValue ''interactive_evaluation'' True]))"

definition create_expectations_for_numeric_column ::
    "column_results \<Rightarrow> string \<Rightarrow> error + call list" where
  "create_expectations_for_numeric_column ds column =
     then_calls (create_non_nullity_expectations ds column)
    (then_calls (range_expectation ExpectColumnMinToBeBetween column (observed_min ds))
    (then_calls (range_expectation ExpectColumnMaxToBeBetween column (observed_max ds))
    (then_calls (range_expectation ExpectColumnMeanToBeBetween column (observed_mean ds))
    (then_calls (range_expectation ExpectColumnMedianToBeBetween column (observed_median ds))
                (quantile_expectation ds column)))))"

text \<open>
  \<open>_build_table_row_count_expectation\<close>, from the row count the probing call observes
  and the tolerance.
\<close>

definition build_table_row_count_expectation :: "int \<Rightarrow> pynum \<Rightarrow> error + call list" where
  "build_table_row_count_expectation observed_value tolerance =
     (if \<not> num_le (PInt 0) tolerance then
        Inl (AssertionError ''Tolerance must be greater than zero'')
      else
        (case num_sub (PInt 1) tolerance of
           Inl e \<Rightarrow> Inl e
         | Inr lower \<Rightarrow>
        (case num_mul (PInt observed_value) lower of
           Inl e \<Rightarrow> Inl e
         | Inr scaled_down \<Rightarrow>
        (case py_int scaled_down of
           Inl e \<Rightarrow> Inl e
         | Inr m \<Rightarrow>
        (case num_add (PInt 1) tolerance of
           Inl e \<Rightarrow> Inl e
         | Inr upper \<Rightarrow>
        (case num_mul (PInt observed_value) upper of
           Inl e \<Rightarrow> Inl e
         | Inr scaled_up \<Rightarrow>
        (case py_int scaled_up of
           Inl e \<Rightarrow> Inl e
         | Inr max_value \<Rightarrow>
             (let min_value = max 0 m
              in Inr [ExpectTableRowCountToBeBetween (Some (PInt 0)) None,
                      ExpectTableRowCountToBeBetween (Some (PInt min_value))
                        (Some (PInt max_value))]))))))))"

text \<open>
  The default tolerance is the literal \<open>0.1\<close>. \<open>scaled_int n c\<close> is \<open>int(n * c)\<close>.
\<close>

definition default_tolerance :: pynum where
  "default_tolerance = PFloat (round_to_float (1 / 10))"

definition scaled_int :: "int \<Rightarrow> pynum \<Rightarrow> error + int" where
  "scaled_int n c = (case num_mul (PInt n) c of Inl e \<Rightarrow> Inl e | Inr p \<Rightarrow> py_int p)"

text \<open>
  The observed values are well formed when each is \<open>None\<close>, an \<open>int\<close>, a binary64
  value, or a \<open>numpy.int64\<close> strictly between the least and the greatest, so that
  neither \<open>v - 1\<close> nor \<open>v + 1\<close> wraps around. \<open>loose_bounds v lo hi\<close> says that \<open>lo\<close>
  and \<open>hi\<close> are \<open>v - 1\<close> and \<open>v + 1\<close> as the source computes them, \<open>in_range lo hi v\<close>
  that \<open>lo \<le> v \<le> hi\<close> holds, and \<open>quantile_range_ok v (lo, hi)\<close> that a quantile
  range has these bounds around the observed value \<open>v\<close> and contains it unless it is NaN.
\<close>

fun valid_statistic :: "statistic \<Rightarrow> bool" where
  "valid_statistic (PyNum v) = valid_num v"
| "valid_statistic (NpInt64 w) = (- (2 ^ 63) < sint w \<and> sint w < 2 ^ 63 - 1)"

fun valid_obs :: "statistic option \<Rightarrow> bool" where
  "valid_obs None = True"
| "valid_obs (Some v) = valid_statistic v"

definition valid_results :: "column_results \<Rightarrow> bool" where
  "valid_results ds =
     (valid_obs (observed_min ds) \<and> valid_obs (observed_max ds) \<and>
      valid_obs (observed_mean ds) \<and> valid_obs (observed_median ds) \<and>
      list_all valid_obs (observed_values (quantile_results ds)))"

definition loose_bounds :: "statistic \<Rightarrow> statistic \<Rightarrow> statistic \<Rightarrow> bool" where
  "loose_bounds v lo hi = (minus_one v = Inr lo \<and> plus_one v = Inr hi)"

definition in_range :: "statistic \<Rightarrow> statistic \<Rightarrow> statistic \<Rightarrow> bool" where
  "in_range lo hi v = (statistic_le lo v \<and> statistic_le v hi)"

fun quantile_range_ok :: "statistic option \<Rightarrow> statistic option \<times> statistic option \<Rightarrow> bool" where
  "quantile_range_ok (Some v) (Some lo, Some hi) =
     (loose_bounds v lo hi \<and> (is_nan (Some v) \<or> in_range lo hi v))"
| "quantile_range_ok _ _ = False"

section \<open>Properties of the Databricks generator\<close>

text \<open>
  C5. When the Spark session is unavailable (\<open>self.spark is None\<close>),
  \<open>get_available_data_asset_names\<close> does not raise (the model is a total function
  with no error branch) and returns the mapping \<open>{"names": []}\<close>.
\<close>

theorem get_available_data_asset_names_no_spark:
  "spark g = None \<Longrightarrow> get_available_data_asset_names g = [(''names'', [])]"
  by (simp add: get_available_data_asset_names_def)

theorem get_available_data_asset_names_no_spark_witness:
  "spark \<lparr>database = ''default'', spark = None\<rparr> = None \<and>
   get_available_data_asset_names \<lparr>database = ''default'', spark = None\<rparr> = [(''names'', [])]"
  using get_available_data_asset_names_no_spark [of "\<lparr>database = ''default'', spark = None\<rparr>"]
  by simp

section \<open>Properties of \<open>_get_iterator\<close>\<close>

text \<open>
  C4, as the code has it. The partition filter is requested by a truthy \<open>partition\<close>
  (\<open>if kwargs.get('partition')\<close>): with such a partition and a \<open>date_field\<close> that is
  missing, \<open>None\<close> or empty, \<open>_get_iterator\<close> raises the generic \<open>Exception\<close>.
\<close>

theorem get_iterator_partition_without_date_field:
  "truthy (kwargs_get kw ''partition'') \<Longrightarrow> \<not> truthy (kwargs_get kw ''date_field'') \<Longrightarrow>
   get_iterator g generator_asset kw =
     Inl (GenericException ''Must specify date_field when using partition.'')"
  by (simp add: get_iterator_def)

theorem get_iterator_partition_without_date_field_witness:
  "truthy (kwargs_get [(''partition'', PStr ''2020-01-01'')] ''partition'') \<and>
   \<not> truthy (kwargs_get [(''partition'', PStr ''2020-01-01'')] ''date_field'') \<and>
   get_iterator \<lparr>database = ''default'', spark = None\<rparr> ''events''
       [(''partition'', PStr ''2020-01-01'')] =
     Inl (GenericException ''Must specify date_field when using partition.'')"
  using get_iterator_partition_without_date_field
    [of "[(''partition'', PStr ''2020-01-01'')]" "\<lparr>database = ''default'', spark = None\<rparr>"
        "''events''"]
  by (simp add: kwargs_get_def)

text \<open>
  C4 as stated fails: a \<open>partition\<close> argument that is supplied but empty, with no
  \<open>date_field\<close>, raises nothing; the call returns the unfiltered query.
\<close>

theorem get_iterator_empty_partition_returns:
  "get_iterator \<lparr>database = ''default'', spark = None\<rparr> ''events'' [(''partition'', PStr [])] =
     Inr [[(''query'', ''select * from default.events'')]]"
  by (simp add: get_iterator_def kwargs_get_def)

text \<open>
  C6. With a truthy \<open>date_field\<close> \<open>F\<close> and a truthy \<open>partition\<close> \<open>P\<close> the iterator holds
  exactly one dict, \<open>{"query": 'select * from D.T where F = "P"'}\<close>, where \<open>D\<close> is the
  generator's database and \<open>T\<close> the asset; when no partition is requested (the argument
  is missing, \<open>None\<close> or empty) it holds exactly \<open>{"query": 'select * from D.T'}\<close>.
\<close>

theorem get_iterator_query:
  "(kwargs_get kw ''date_field'' = PStr F \<and> F \<noteq> [] \<and>
    kwargs_get kw ''partition'' = PStr P \<and> P \<noteq> [] \<longrightarrow>
      get_iterator g T kw =
        Inr [[(''query'', ''select * from '' @ database g @ ''.'' @ T @ '' where '' @ F @
                          '' = '' @ [CHR 0x22] @ P @ [CHR 0x22])]]) \<and>
   (\<not> truthy (kwargs_get kw ''partition'') \<longrightarrow>
      get_iterator g T kw = Inr [[(''query'', ''select * from '' @ database g @ ''.'' @ T)]])"
  by (simp add: get_iterator_def)

theorem get_iterator_query_witness:
  "get_iterator \<lparr>database = ''sales'', spark = None\<rparr> ''orders''
       [(''date_field'', PStr ''ds''), (''partition'', PStr ''2020-01-01'')] =
     Inr [[(''query'', ''select * from sales.orders where ds = '' @ [CHR 0x22] @
                       ''2020-01-01'' @ [CHR 0x22])]] \<and>
   get_iterator \<lparr>database = ''sales'', spark = None\<rparr> ''orders'' [] =
     Inr [[(''query'', ''select * from sales.orders'')]]"
  using get_iterator_query
    [of "[(''date_field'', PStr ''ds''), (''partition'', PStr ''2020-01-01'')]"
        "''ds''" "''2020-01-01''" "\<lparr>database = ''sales'', spark = None\<rparr>" "''orders''"]
    get_iterator_query
    [of "[]" "''ds''" "''2020-01-01''" "\<lparr>database = ''sales'', spark = None\<rparr>" "''orders''"]
  by (simp add: kwargs_get_def)

section \<open>Properties of \<open>_profile\<close>: errors\<close>

lemma has_key_nonempty: "has_key d k \<Longrightarrow> d \<noteq> []"
  by (auto simp: has_key_def)



lemma columns_loop_Inl:
  "columns_loop ds xs = Inl e \<Longrightarrow> \<exists>m. e = ProfilerError m"
  by (induction xs) (auto split: if_splits)

lemma iterate_Inl: "iterate v = Inl e \<Longrightarrow> cfg_truthy v \<Longrightarrow> e = TypeError \<and> \<not> falsy_or_iterable v"
  by (cases v) auto


lemma check_columns_Inl:
  "check_that_columns_exist ds v = Inl e \<Longrightarrow>
   (\<exists>m. e = ProfilerError m) \<or> (e = TypeError \<and> \<not> falsy_or_iterable v)"
  by (auto simp: check_that_columns_exist_def
      dest: columns_loop_Inl iterate_Inl split: if_splits sum.splits)


lemma configured_columns_Inl:
  "configured_columns cols (ConfigDict d) = Inl e \<Longrightarrow>
   (\<exists>m. e = ProfilerError m) \<or>
   (e = TypeError \<and> \<not> has_key d ''included_columns'' \<and>
    \<not> falsy_or_iterable (item d ''excluded_columns''))"
proof -
  have "\<And>v. iterate v = Inl e \<Longrightarrow> \<not> in_false_none_empty v \<Longrightarrow>
             e = TypeError \<and> \<not> falsy_or_iterable v"
    subgoal for v by (cases v) auto
    done
  then show "configured_columns cols (ConfigDict d) = Inl e \<Longrightarrow> ?thesis"
    by (auto simp: configured_columns_def Let_def split: if_splits sum.splits)
qed

text \<open>
  C1. A configuration dict that has both the key \<open>included_expectations\<close> and the key
  \<open>excluded_expectations\<close> makes \<open>_profile\<close> raise a \<open>ProfilerError\<close>, for every
  dataset and whatever the dict holds under these or other keys.
\<close>

theorem profile_both_expectation_keys:
  assumes "has_key d ''included_expectations''" and "has_key d ''excluded_expectations''"
  shows "profile ds (ConfigDict d) = Inl (ProfilerError
     ''Please specify either `included_expectations` or `excluded_expectations`.'')"
  using assms has_key_nonempty[OF assms(1)]
  by (simp add: profile_def configured_expectations_def)

theorem profile_both_expectation_keys_witness:
  "has_key [(''included_expectations'', CList []), (''excluded_expectations'', CNone)]
     ''included_expectations'' \<and>
   has_key [(''included_expectations'', CList []), (''excluded_expectations'', CNone)]
     ''excluded_expectations'' \<and>
   profile \<lparr>table_columns = [''a''], available_expectation_types = [],
            suite = \<lparr>expectations = [], meta = []\<rparr>\<rparr>
     (ConfigDict [(''included_expectations'', CList []), (''excluded_expectations'', CNone)]) =
     Inl (ProfilerError
       ''Please specify either `included_expectations` or `excluded_expectations`.'')"
  using profile_both_expectation_keys
    [of "[(''included_expectations'', CList []), (''excluded_expectations'', CNone)]"
        "\<lparr>table_columns = [''a''], available_expectation_types = [],
          suite = \<lparr>expectations = [], meta = []\<rparr>\<rparr>"]
  by (simp add: has_key_def)















section \<open>Properties of \<open>_profile\<close>: column selection and the empty suite\<close>

text \<open>
  C7 fails on the code. The class docstring documents a \<open>columns\<close> key listing the columns
  to profile, but \<open>_profile\<close> never reads it: with the table columns \<open>id\<close> and \<open>name\<close>
  and the configuration \<open>{"columns": ["id"]}\<close> it goes on to create expectations for
  both columns.
\<close>

theorem profile_ignores_columns_key:
  "profile \<lparr>table_columns = [''id'', ''name''], available_expectation_types = [],
            suite = \<lparr>expectations = [], meta = []\<rparr>\<rparr>
     (ConfigDict [(''columns'', CList [''id''])]) =
   Inr (ProfileColumns (CList [''id'', ''name'']) (CList []) (CList []))"
  by (simp add: profile_def configured_expectations_def configured_columns_def has_key_def
      check_that_columns_exist_def)

lemma columns_loop_ok: "set xs \<subseteq> set (table_columns ds) \<Longrightarrow> columns_loop ds xs = Inr ()"
  by (induction xs) auto

lemma check_columns_ok:
  "set (cfg_names v) \<subseteq> set (table_columns ds) \<Longrightarrow> falsy_or_iterable v \<Longrightarrow>
   check_that_columns_exist ds v = Inr ()"
  by (cases v) (auto simp: check_that_columns_exist_def cfg_names_def columns_loop_ok)

lemma map_of_fold_update:
  "map_of (fold (\<lambda>k m. AList.update k v m) ks acc) c =
     (if c \<in> set ks then Some v else map_of acc c)"
  by (induction ks arbitrary: acc) (auto simp: update_conv')

lemma meta_columns_of_build:
  "\<exists>mc. map_of (meta (build_column_description_metadata ds)) ''columns'' =
          Some (MetaColumns mc) \<and>
        (\<forall>c. map_of mc c =
               (if c \<in> set (table_columns ds) then Some [(''description'', [])] else None))"
  by (simp add: build_column_description_metadata_def Let_def update_conv' map_of_fold_update)

lemma iterate_excluded:
  "falsy_or_iterable v \<Longrightarrow> \<not> in_false_none_empty v \<Longrightarrow> \<exists>xs. iterate v = Inr xs"
  by (cases v) auto

lemma configured_columns_subset:
  assumes "\<not> (has_key d ''included_columns'' \<and> has_key d ''excluded_columns'')"
    and "set (cfg_names (item d ''included_columns'')) \<subseteq> set cols"
    and "falsy_or_iterable (item d ''included_columns'')"
    and "falsy_or_iterable (item d ''excluded_columns'')"
  shows "\<exists>sel. configured_columns cols (ConfigDict d) = Inr sel \<and>
               set (cfg_names sel) \<subseteq> set cols \<and> falsy_or_iterable sel"
  using assms iterate_excluded[of "item d ''excluded_columns''"]
  by (auto simp: configured_columns_def Let_def cfg_names_def)

text \<open>
  C9, as the code has it. When the value under \<open>included_expectations\<close> is one of
  \<open>False\<close>, \<open>None\<close> and the empty list (or equal to one of them, as \<open>0\<close> is) and the
  configuration passes the checks that come first (no \<open>excluded_expectations\<close> key, not
  both column keys, the values under \<open>included_columns\<close> and \<open>excluded_columns\<close> falsy
  or iterable, every column named under \<open>included_columns\<close> a table column), \<open>_profile\<close>
  raises nothing and returns a suite whose list of expectations is empty and whose
  \<open>meta["columns"]\<close> has one empty description for each table column and nothing else.
\<close>

theorem profile_empty_included_expectations:
  assumes "has_key d ''included_expectations''"
    and "in_false_none_empty (item d ''included_expectations'')"
    and "\<not> has_key d ''excluded_expectations''"
    and "\<not> (has_key d ''included_columns'' \<and> has_key d ''excluded_columns'')"
    and "set (cfg_names (item d ''included_columns'')) \<subseteq> set (table_columns ds)"
    and "falsy_or_iterable (item d ''included_columns'')"
    and "falsy_or_iterable (item d ''excluded_columns'')"
  shows "\<exists>s mc. profile ds (ConfigDict d) = Inr (EmptySuite s) \<and> expectations s = [] \<and>
           map_of (meta s) ''columns'' = Some (MetaColumns mc) \<and>
           (\<forall>c. map_of mc c =
                  (if c \<in> set (table_columns ds) then Some [(''description'', [])] else None))"
proof -
  have ne: "d \<noteq> []" using assms(1) by (rule has_key_nonempty)
  have e: "configured_expectations ds (ConfigDict d) = Inr (CNone, CList [])"
    using assms(1-3) ne
    by (simp add: configured_expectations_def check_that_expectations_are_available_def)
  obtain sel where s: "configured_columns (table_columns ds) (ConfigDict d) = Inr sel"
    and sub: "set (cfg_names sel) \<subseteq> set (table_columns ds)" and u: "falsy_or_iterable sel"
    using configured_columns_subset[OF assms(4-7)] by blast
  have p: "profile ds (ConfigDict d) =
      Inr (EmptySuite ((build_column_description_metadata ds)\<lparr>expectations := []\<rparr>))"
    using e s check_columns_ok[OF sub u] by (simp add: profile_def)
  obtain mc where
    "map_of (meta (build_column_description_metadata ds)) ''columns'' = Some (MetaColumns mc)"
    and "\<forall>c. map_of mc c =
              (if c \<in> set (table_columns ds) then Some [(''description'', [])] else None)"
    using meta_columns_of_build by blast
  with p show ?thesis by auto
qed

theorem profile_empty_included_expectations_witness:
  "profile \<lparr>table_columns = [''a'', ''b''], available_expectation_types = [],
            suite = \<lparr>expectations = [\<lparr>expectation_type = ''expect_column_to_exist'',
                                       exp_kwargs = [(''column'', AStr ''a'')]\<rparr>], meta = []\<rparr>\<rparr>
     (ConfigDict [(''included_expectations'', CList [])]) =
   Inr (EmptySuite \<lparr>expectations = [],
          meta = [(''columns'', MetaColumns [(''a'', [(''description'', [])]),
                                             (''b'', [(''description'', [])])]),
                  (''notes'', MetaSet [[]])]\<rparr>)"
proof -
  let ?ds = "\<lparr>table_columns = [''a'', ''b''], available_expectation_types = [],
            suite = \<lparr>expectations = [\<lparr>expectation_type = ''expect_column_to_exist'',
                                       exp_kwargs = [(''column'', AStr ''a'')]\<rparr>], meta = []\<rparr>\<rparr>"
  let ?d = "[(''included_expectations'', CList [])]"
  have "\<exists>s mc. profile ?ds (ConfigDict ?d) = Inr (EmptySuite s) \<and> expectations s = [] \<and>
           map_of (meta s) ''columns'' = Some (MetaColumns mc) \<and>
           (\<forall>c. map_of mc c =
                  (if c \<in> set (table_columns ?ds) then Some [(''description'', [])] else None))"
    by (rule profile_empty_included_expectations)
       (simp_all add: has_key_def item_def cfg_names_def)
  then obtain s where "profile ?ds (ConfigDict ?d) = Inr (EmptySuite s)" by blast
  moreover have "profile ?ds (ConfigDict ?d) = Inr (EmptySuite \<lparr>expectations = [],
          meta = [(''columns'', MetaColumns [(''a'', [(''description'', [])]),
                                             (''b'', [(''description'', [])])]),
                  (''notes'', MetaSet [[]])]\<rparr>)"
    by (simp add: profile_def configured_expectations_def configured_columns_def has_key_def
        item_def check_that_columns_exist_def check_that_expectations_are_available_def
        build_column_description_metadata_def)
  ultimately show ?thesis by simp
qed

text \<open>
  C9 as stated fails. An empty tuple under \<open>included_expectations\<close> is empty but equals
  none of \<open>False\<close>, \<open>None\<close> and \<open>[]\<close>: \<open>_profile\<close> does not return the empty suite but
  goes on to create expectations for every column, filtering none.
\<close>

theorem profile_empty_tuple_profiles_columns:
  "profile \<lparr>table_columns = [''a'', ''b''], available_expectation_types = [],
            suite = \<lparr>expectations = [], meta = []\<rparr>\<rparr>
     (ConfigDict [(''included_expectations'', CTuple [])]) =
   Inr (ProfileColumns (CList [''a'', ''b'']) (CTuple []) (CList []))"
  by (simp add: profile_def configured_expectations_def configured_columns_def has_key_def
      item_def check_that_columns_exist_def check_that_expectations_are_available_def)

text \<open>
  Nor does an empty list return the empty suite when a check that comes first raises:
  next to an \<open>excluded_expectations\<close> key it is the conflict of the two keys.
\<close>

lemma profile_empty_included_with_excluded_raises:
  "profile \<lparr>table_columns = [''a''], available_expectation_types = [],
            suite = \<lparr>expectations = [], meta = []\<rparr>\<rparr>
     (ConfigDict [(''included_expectations'', CList []), (''excluded_expectations'', CList [])]) =
   Inl (ProfilerError
     ''Please specify either `included_expectations` or `excluded_expectations`.'')"
  by (simp add: profile_def configured_expectations_def has_key_def)

section \<open>Rounding to binary64\<close>

text \<open>
  The binary exponent is well defined, rounding is monotone, and in the normal range
  its relative error is at most \<open>2^-53\<close>.
\<close>

lemma bitlen_rat_bounds:
  assumes "0 < p"
  shows "(2::rat) powi (bitlen p - 1) \<le> of_int p" and "of_int p < (2::rat) powi bitlen p"
proof -
  have b: "1 \<le> bitlen p" using assms by (simp add: bitlen_alt_def)
  have "(2::int) ^ nat (bitlen p - 1) \<le> p" and "p < 2 ^ nat (bitlen p)"
    using bitlen_bounds[OF assms] by auto
  then have "(of_int (2 ^ nat (bitlen p - 1)) :: rat) \<le> of_int p"
    and "(of_int p :: rat) < of_int (2 ^ nat (bitlen p))"
    by (simp_all only: of_int_le_iff of_int_less_iff)
  then show "(2::rat) powi (bitlen p - 1) \<le> of_int p" and "of_int p < (2::rat) powi bitlen p"
    using b by (simp_all add: power_int_def)
qed

lemma ilog2_bounds:
  assumes "0 < x"
  shows "2 powi ilog2 x \<le> x" and "x < 2 powi (ilog2 x + 1)"
proof -
  obtain p q where pq: "quotient_of x = (p, q)" by (cases "quotient_of x")
  have q: "0 < q" using pq by (rule quotient_of_denom_pos)
  have x: "x = of_int p / of_int q" using pq by (rule quotient_of_div)
  have p: "0 < p" using assms q x by (simp add: zero_less_divide_iff)
  let ?d = "bitlen p - bitlen q"
  note bp = bitlen_rat_bounds[OF p] and bq = bitlen_rat_bounds[OF q]
  have qpos: "(0::rat) < of_int q" using q by simp
  have up: "x < 2 powi (?d + 1)"
  proof -
    have "x * of_int q = of_int p" using x qpos by simp
    also have "\<dots> < 2 powi bitlen p" by (rule bp(2))
    also have "\<dots> = 2 powi (?d + 1) * 2 powi (bitlen q - 1)"
      by (simp flip: power_int_add)
    also have "\<dots> \<le> 2 powi (?d + 1) * of_int q"
      using bq(1) by (intro mult_left_mono) simp_all
    finally show ?thesis using qpos by simp
  qed
  have lo: "2 powi (?d - 1) \<le> x"
  proof -
    have "(2::rat) powi (?d - 1) * of_int q \<le> 2 powi (?d - 1) * 2 powi bitlen q"
      using bq(2) by (intro mult_left_mono) simp_all
    also have "\<dots> = 2 powi (bitlen p - 1)" by (simp flip: power_int_add)
    also have "\<dots> \<le> of_int p" by (rule bp(1))
    also have "\<dots> = x * of_int q" using x qpos by simp
    finally show ?thesis using qpos by simp
  qed
  show "2 powi ilog2 x \<le> x" using lo by (simp add: ilog2_def pq Let_def)
  show "x < 2 powi (ilog2 x + 1)" using up by (simp add: ilog2_def pq Let_def)
qed

lemma two_powi_pos: "(0::rat) < 2 powi k"
  by simp

lemma two_powi_less_imp: "(2::rat) powi a < 2 powi b \<Longrightarrow> a < b"
  using power_int_increasing[of b a "2::rat"] by (cases "a < b") auto

lemma ilog2_unique:
  assumes "2 powi k \<le> x" and "x < 2 powi (k + 1)"
  shows "ilog2 x = k"
proof -
  have x: "0 < x" using assms(1) two_powi_pos[of k] by linarith
  note b = ilog2_bounds[OF x]
  have "(2::rat) powi ilog2 x < 2 powi (k + 1)" using b(1) assms(2) by linarith
  then have 1: "ilog2 x < k + 1" by (rule two_powi_less_imp)
  have "(2::rat) powi k < 2 powi (ilog2 x + 1)" using b(2) assms(1) by linarith
  then have 2: "k < ilog2 x + 1" by (rule two_powi_less_imp)
  from 1 2 show ?thesis by simp
qed

lemma ilog2_mono:
  assumes "0 < a" and "a \<le> b"
  shows "ilog2 a \<le> ilog2 b"
proof -
  have b: "0 < b" using assms by simp
  have "(2::rat) powi ilog2 a < 2 powi (ilog2 b + 1)"
    using ilog2_bounds(1)[OF assms(1)] ilog2_bounds(2)[OF b] assms(2) by linarith
  then have "ilog2 a < ilog2 b + 1" by (rule two_powi_less_imp)
  then show ?thesis by simp
qed

lemma round_half_even_of_int [simp]: "round_half_even (of_int m) = m"
  by (simp add: round_half_even_def)

lemma round_half_even_mono:
  assumes "a \<le> b"
  shows "round_half_even a \<le> round_half_even b"
proof (cases "\<lfloor>a\<rfloor> = \<lfloor>b\<rfloor>")
  case True
  then show ?thesis using assms by (auto simp: round_half_even_def Let_def)
next
  case False
  then have "\<lfloor>a\<rfloor> + 1 \<le> \<lfloor>b\<rfloor>" using floor_mono[OF assms] by simp
  moreover have "round_half_even a \<le> \<lfloor>a\<rfloor> + 1" by (simp add: round_half_even_def Let_def)
  moreover have "\<lfloor>b\<rfloor> \<le> round_half_even b" by (simp add: round_half_even_def Let_def)
  ultimately show ?thesis by linarith
qed

lemma round_half_even_error: "\<bar>of_int (round_half_even q) - q\<bar> \<le> 1 / 2"
proof -
  have "of_int \<lfloor>q\<rfloor> \<le> q" "q < of_int \<lfloor>q\<rfloor> + 1" by linarith+
  then show ?thesis by (auto simp: round_half_even_def Let_def abs_le_iff)
qed

lemma round_half_even_le: "q \<le> of_int m \<Longrightarrow> round_half_even q \<le> m"
  using round_half_even_mono[of q "of_int m"] by simp

lemma round_half_even_ge: "of_int m \<le> q \<Longrightarrow> m \<le> round_half_even q"
  using round_half_even_mono[of "of_int m" q] by simp

lemma float_exponent_mono: "0 < a \<Longrightarrow> a \<le> b \<Longrightarrow> float_exponent a \<le> float_exponent b"
  using ilog2_mono[of a b] by (simp add: float_exponent_def)

lemma round_magnitude_upper:
  assumes "0 < a"
  shows "round_magnitude a \<le> 2 powi (float_exponent a + 53)"
proof -
  let ?e = "float_exponent a"
  have "ilog2 a + 1 \<le> ?e + 53" by (simp add: float_exponent_def)
  then have "(2::rat) powi (ilog2 a + 1) \<le> 2 powi (?e + 53)"
    by (intro power_int_increasing) simp_all
  then have "a \<le> 2 powi (?e + 53)" using ilog2_bounds(2)[OF assms] by linarith
  also have "\<dots> = 2 powi 53 * 2 powi ?e" by (simp add: power_int_add)
  finally have "a / 2 powi ?e \<le> 2 powi 53"
    by (simp add: pos_divide_le_eq)
  then have "a / 2 powi ?e \<le> of_int (2 ^ 53)" by simp
  then have "round_half_even (a / 2 powi ?e) \<le> 2 ^ 53" by (rule round_half_even_le)
  then have "(of_int (round_half_even (a / 2 powi ?e)) :: rat) \<le> of_int (2 ^ 53)"
    by (simp only: of_int_le_iff)
  then have "round_magnitude a \<le> of_int (2 ^ 53) * 2 powi ?e"
    unfolding round_magnitude_def by (intro mult_right_mono) simp_all
  also have "\<dots> = 2 powi (?e + 53)" by (simp add: power_int_add)
  finally show ?thesis .
qed

lemma round_magnitude_lower:
  assumes "0 < b" and "- 1074 < float_exponent b"
  shows "2 powi (float_exponent b + 52) \<le> round_magnitude b"
proof -
  let ?e = "float_exponent b"
  have e: "?e = ilog2 b - 52" using assms(2) by (simp add: float_exponent_def max_def split: if_splits)
  have "2 powi (?e + 52) \<le> b" using ilog2_bounds(1)[OF assms(1)] by (simp add: e)
  moreover have "(2::rat) powi (?e + 52) = 2 powi 52 * 2 powi ?e" by (simp add: power_int_add)
  ultimately have "2 powi 52 \<le> b / 2 powi ?e" by (simp add: pos_le_divide_eq)
  then have "of_int (2 ^ 52) \<le> b / 2 powi ?e" by simp
  then have "2 ^ 52 \<le> round_half_even (b / 2 powi ?e)" by (rule round_half_even_ge)
  then have "(of_int (2 ^ 52) :: rat) \<le> of_int (round_half_even (b / 2 powi ?e))"
    by (simp only: of_int_le_iff)
  then have "of_int (2 ^ 52) * 2 powi ?e \<le> round_magnitude b"
    unfolding round_magnitude_def by (intro mult_right_mono) simp_all
  moreover have "of_int (2 ^ 52) * 2 powi ?e = (2::rat) powi (?e + 52)" by (simp add: power_int_add)
  ultimately show ?thesis by simp
qed

lemma round_magnitude_mono:
  assumes "0 < a" and "a \<le> b"
  shows "round_magnitude a \<le> round_magnitude b"
proof (cases "float_exponent a = float_exponent b")
  case True
  have "a / 2 powi float_exponent b \<le> b / 2 powi float_exponent b"
    using assms(2) by (simp add: divide_right_mono)
  then have "round_half_even (a / 2 powi float_exponent b) \<le> round_half_even (b / 2 powi float_exponent b)"
    by (rule round_half_even_mono)
  then have "(of_int (round_half_even (a / 2 powi float_exponent b)) :: rat) \<le>
             of_int (round_half_even (b / 2 powi float_exponent b))"
    by (simp only: of_int_le_iff)
  then show ?thesis
    unfolding round_magnitude_def True by (intro mult_right_mono) simp_all
next
  case False
  have b: "0 < b" using assms by simp
  have lt: "float_exponent a < float_exponent b"
    using False float_exponent_mono[OF assms] by simp
  have "- 1074 \<le> float_exponent a" by (simp add: float_exponent_def)
  with lt have "- 1074 < float_exponent b" by simp
  then have lo: "2 powi (float_exponent b + 52) \<le> round_magnitude b"
    by (rule round_magnitude_lower[OF b])
  have "(2::rat) powi (float_exponent a + 53) \<le> 2 powi (float_exponent b + 52)"
    using lt by (intro power_int_increasing) simp_all
  with round_magnitude_upper[OF assms(1)] lo show ?thesis by linarith
qed

lemma round_magnitude_nonneg: "0 < x \<Longrightarrow> 0 \<le> round_magnitude x"
proof -
  assume "0 < x"
  then have "of_int 0 \<le> x / 2 powi float_exponent x" by simp
  then have "0 \<le> round_half_even (x / 2 powi float_exponent x)" by (rule round_half_even_ge)
  then show ?thesis by (simp add: round_magnitude_def)
qed

lemma round_to_float_zero [simp]: "round_to_float 0 = Finite 0"
  by (simp add: round_to_float_def)

lemma round_to_float_pos:
  "0 < x \<Longrightarrow> round_to_float x =
     (if overflow_threshold \<le> round_magnitude x then PosInf else Finite (round_magnitude x))"
  by (simp add: round_to_float_def Let_def)

lemma round_to_float_neg:
  "x < 0 \<Longrightarrow> round_to_float x =
     (if overflow_threshold \<le> round_magnitude (- x) then NegInf
      else Finite (- round_magnitude (- x)))"
  by (simp add: round_to_float_def Let_def)

lemma round_to_float_mono:
  assumes "a \<le> b"
  shows "float_le (round_to_float a) (round_to_float b)"
proof -
  consider (pos) "0 < a" | (zero) "a = 0" | (neg) "a < 0" by linarith
  then show ?thesis
  proof cases
    case pos
    then have b: "0 < b" using assms by simp
    have "round_magnitude a \<le> round_magnitude b" using pos assms by (rule round_magnitude_mono)
    then show ?thesis by (simp add: round_to_float_pos pos b)
  next
    case zero
    consider "b = 0" | "0 < b" using assms zero by linarith
    then show ?thesis
      using round_magnitude_nonneg[of b]
      by cases (simp_all add: zero round_to_float_pos)
  next
    case neg
    consider (bneg) "b < 0" | (bzero) "b = 0" | (bpos) "0 < b" by linarith
    then show ?thesis
    proof cases
      case bneg
      have "round_magnitude (- b) \<le> round_magnitude (- a)"
        using bneg assms by (intro round_magnitude_mono) simp_all
      then show ?thesis by (simp add: round_to_float_neg neg bneg)
    next
      case bzero
      have "0 \<le> round_magnitude (- a)" using neg by (intro round_magnitude_nonneg) simp
      then show ?thesis by (simp add: round_to_float_neg neg bzero)
    next
      case bpos
      have "0 \<le> round_magnitude (- a)" using neg by (intro round_magnitude_nonneg) simp
      moreover have "0 \<le> round_magnitude b" using bpos by (rule round_magnitude_nonneg)
      ultimately show ?thesis by (simp add: round_to_float_neg round_to_float_pos neg bpos)
    qed
  qed
qed

lemma float_exponent_normal:
  assumes "2 powi k \<le> x" and "- 1022 \<le> k"
  shows "float_exponent x = ilog2 x - 52"
proof -
  have x: "0 < x" using assms(1) two_powi_pos[of k] by linarith
  have "(2::rat) powi k < 2 powi (ilog2 x + 1)" using ilog2_bounds(2)[OF x] assms(1) by linarith
  then have "k < ilog2 x + 1" by (rule two_powi_less_imp)
  then show ?thesis using assms(2) by (simp add: float_exponent_def)
qed

lemma round_magnitude_error:
  assumes "2 powi (- 1022) \<le> x"
  shows "\<bar>round_magnitude x - x\<bar> \<le> x / 2 ^ 53"
proof -
  have x: "0 < x" using assms two_powi_pos[of "- 1022"] by linarith
  let ?e = "float_exponent x"
  have e: "?e = ilog2 x - 52" using assms by (rule float_exponent_normal) simp
  let ?q = "x / 2 powi ?e"
  have "round_magnitude x - x = (of_int (round_half_even ?q) - ?q) * 2 powi ?e"
    by (simp add: round_magnitude_def algebra_simps)
  then have "\<bar>round_magnitude x - x\<bar> = \<bar>of_int (round_half_even ?q) - ?q\<bar> * 2 powi ?e"
    by (simp add: abs_mult)
  also have "\<dots> \<le> 1 / 2 * 2 powi ?e"
    using round_half_even_error[of ?q] by (intro mult_right_mono) simp_all
  also have "2 powi ?e = (2::rat) powi ilog2 x / 2 ^ 52"
    by (simp add: e power_int_diff)
  also have "1 / 2 * ((2::rat) powi ilog2 x / 2 ^ 52) = 2 powi ilog2 x / 2 ^ 53" by simp
  also have "\<dots> \<le> x / 2 ^ 53" using ilog2_bounds(1)[OF x] by (simp add: divide_right_mono)
  finally show ?thesis .
qed

lemma round_to_float_normal:
  assumes "2 powi (- 1022) \<le> x" and "x * (1 + 1 / 2 ^ 53) < 2 ^ 1024"
  shows "\<exists>r. round_to_float x = Finite r \<and> x * (1 - 1 / 2 ^ 53) \<le> r \<and> r \<le> x * (1 + 1 / 2 ^ 53)"
proof -
  have x: "0 < x" using assms(1) two_powi_pos[of "- 1022"] by linarith
  have 1: "x * (1 - 1 / 2 ^ 53) = x - x / 2 ^ 53" and 2: "x * (1 + 1 / 2 ^ 53) = x + x / 2 ^ 53"
    by (simp_all add: algebra_simps)
  have "round_magnitude x - x \<le> x / 2 ^ 53" and "x - round_magnitude x \<le> x / 2 ^ 53"
    using round_magnitude_error[OF assms(1)] by (simp_all only: abs_le_iff minus_diff_eq)
  then have b: "x * (1 - 1 / 2 ^ 53) \<le> round_magnitude x"
               "round_magnitude x \<le> x * (1 + 1 / 2 ^ 53)"
    unfolding 1 2 by linarith+
  with assms(2) have "round_magnitude x < overflow_threshold"
    unfolding overflow_threshold_def by linarith
  then have "round_to_float x = Finite (round_magnitude x)"
    using x by (simp add: round_to_float_pos)
  with b show ?thesis by blast
qed

text \<open>
  Rounding a value whose binary exponent is known; this evaluates the literals.
\<close>

lemma round_magnitude_eq:
  assumes "2 powi k \<le> x" and "x < 2 powi (k + 1)" and "- 1022 \<le> k"
  shows "round_magnitude x = of_int (round_half_even (x / 2 powi (k - 52))) * 2 powi (k - 52)"
proof -
  have "ilog2 x = k" using assms(1,2) by (rule ilog2_unique)
  moreover have "float_exponent x = ilog2 x - 52" using assms(1,3) by (rule float_exponent_normal)
  ultimately show ?thesis by (simp add: round_magnitude_def)
qed

lemma round_to_float_eq:
  assumes "2 powi k \<le> x" and "x < 2 powi (k + 1)" and "- 1022 \<le> k" and "k < 1023"
  shows "round_to_float x =
           Finite (of_int (round_half_even (x / 2 powi (k - 52))) * 2 powi (k - 52))"
proof -
  have x: "0 < x" using assms(1) two_powi_pos[of k] by linarith
  have "(2::rat) powi (k + 1 + 53) = 2 powi (k + 1) * 2 ^ 53" by (simp add: power_int_add)
  have "round_magnitude x \<le> 2 powi (float_exponent x + 53)" using x by (rule round_magnitude_upper)
  also have "float_exponent x + 53 = k + 1"
    using ilog2_unique[OF assms(1,2)] float_exponent_normal[OF assms(1,3)] by simp
  also have "(2::rat) powi (k + 1) \<le> 2 powi 1023"
    using assms(4) by (intro power_int_increasing) simp_all
  also have "(2::rat) powi 1023 < overflow_threshold" by (simp add: overflow_threshold_def)
  finally have "round_magnitude x < overflow_threshold" .
  then show ?thesis using x round_magnitude_eq[OF assms(1-3)] by (simp add: round_to_float_pos)
qed

lemma floor_rat_numeral:
  "\<lfloor>(numeral a :: rat) / numeral b\<rfloor> = numeral a div numeral b"
  using floor_divide_of_int_eq[of "numeral a" "numeral b", where ?'a = rat] by simp

lemmas float_eval = round_half_even_def Let_def power_int_minus floor_rat_numeral

lemma float_one_tenth: "round_to_float (1 / 10) = Finite (3602879701896397 / 36028797018963968)"
  using round_to_float_eq[of "- 4" "1 / 10"]
  by (simp add: float_eval)

lemma float_one: "round_to_float 1 = Finite 1"
  using round_to_float_eq[of 0 1]
  by (simp add: float_eval)

section \<open>Properties of \<open>_build_table_row_count_expectation\<close>\<close>

text \<open>
  With the default tolerance, \<open>1 - tolerance\<close> is the float \<open>0.9\<close> and
  \<open>1 + tolerance\<close> is the float \<open>1.1\<close>.
\<close>

lemma float_literal_nine_tenths:
  "round_to_float (9 / 10) = Finite (8106479329266893 / 9007199254740992)"
  using round_to_float_eq[of "- 1" "9 / 10"] by (simp add: float_eval)

lemma float_literal_eleven_tenths:
  "round_to_float (11 / 10) = Finite (2476979795053773 / 2251799813685248)"
  using round_to_float_eq[of 0 "11 / 10"] by (simp add: float_eval)

lemma int_to_float_one: "int_to_float 1 = Inr (Finite 1)"
  by (simp add: int_to_float_def float_one)

lemma one_minus_tolerance:
  "num_sub (PInt 1) default_tolerance = Inr (PFloat (Finite (8106479329266893 / 9007199254740992)))"
  using round_to_float_eq[of "- 1" "1 - 3602879701896397 / 36028797018963968"]
  by (simp add: default_tolerance_def float_one_tenth float_op_def int_to_float_one fsub_def
      float_eval)

lemma one_plus_tolerance:
  "num_add (PInt 1) default_tolerance = Inr (PFloat (Finite (2476979795053773 / 2251799813685248)))"
  using round_to_float_eq[of 0 "1 + 3602879701896397 / 36028797018963968"]
  by (simp add: default_tolerance_def float_one_tenth float_op_def int_to_float_one float_eval)

lemma tolerance_nonneg: "num_le (PInt 0) default_tolerance"
  by (simp add: default_tolerance_def float_one_tenth num_le_def)

text \<open>
  Converting the row count to a float and multiplying by a factor near one keeps the
  product within two roundings of the exact one.
\<close>

lemma int_to_float_bounds:
  assumes "1 \<le> n" and "n < 2 ^ 1023"
  shows "\<exists>r. int_to_float n = Inr (Finite r) \<and> of_int n * (1 - 1 / 2 ^ 53) \<le> r \<and>
             r \<le> of_int n * (1 + 1 / 2 ^ 53)"
proof -
  let ?x = "of_int n :: rat"
  have x1: "1 \<le> ?x" using assms(1) by simp
  have "(2::rat) powi (- 1022) \<le> 1" by (simp add: power_int_minus inverse_le_1_iff)
  then have lo: "2 powi (- 1022) \<le> ?x" using x1 by linarith
  have "?x < of_int (2 ^ 1023)" using assms(2) by (simp only: of_int_less_iff)
  then have x2: "?x < 2 ^ 1023" by simp
  have "?x * (1 + 1 / 2 ^ 53) \<le> ?x * 2" using x1 by (intro mult_left_mono) simp_all
  also have "\<dots> < 2 ^ 1023 * 2" using x2 by simp
  finally have hi: "?x * (1 + 1 / 2 ^ 53) < 2 ^ 1024" by simp
  from round_to_float_normal[OF lo hi] show ?thesis
    by (auto simp: int_to_float_def)
qed

lemma scale_bounds:
  assumes "1 \<le> n" and "n < 2 ^ 1023" and "1 / 2 \<le> c" and "c \<le> 6 / 5"
  shows "\<exists>r. num_mul (PInt n) (PFloat (Finite c)) = Inr (PFloat (Finite r)) \<and>
             of_int n * (c * ((1 - 1 / 2 ^ 53) * (1 - 1 / 2 ^ 53))) \<le> r \<and>
             r \<le> of_int n * (c * ((1 + 1 / 2 ^ 53) * (1 + 1 / 2 ^ 53)))"
proof -
  let ?x = "of_int n :: rat"
  let ?U = "1 + 1 / 2 ^ 53 :: rat" and ?L = "1 - 1 / 2 ^ 53 :: rat"
  obtain f where f: "int_to_float n = Inr (Finite f)" and fl: "?x * ?L \<le> f" and fu: "f \<le> ?x * ?U"
    using int_to_float_bounds[OF assms(1,2)] by blast
  have x1: "1 \<le> ?x" using assms(1) by simp
  have "?x < of_int (2 ^ 1023)" using assms(2) by (simp only: of_int_less_iff)
  then have x2: "?x < 2 ^ 1023" by simp
  have c0: "0 \<le> c" using assms(3) by simp
  have "1 * ?L \<le> ?x * ?L" using x1 by (intro mult_right_mono) simp_all
  then have f1: "?L \<le> f" using fl by simp
  have "1 / 2 * ?L \<le> c * f" using assms(3) f1 by (intro mult_mono) simp_all
  moreover have "(2::rat) powi (- 1022) \<le> 1 / 2 * ?L" by (simp add: power_int_minus)
  ultimately have lo: "2 powi (- 1022) \<le> f * c" by (simp add: mult.commute)
  have fc: "f * c \<le> ?x * ?U * c" using fu c0 by (intro mult_right_mono)
  have "6 / 5 * (?U * ?U) \<le> 3 / 2" by simp
  moreover have "c * (?U * ?U) \<le> 6 / 5 * (?U * ?U)" using assms(4) by (intro mult_right_mono) simp_all
  ultimately have "c * (?U * ?U) \<le> 3 / 2" by linarith
  then have "?x * (c * (?U * ?U)) \<le> ?x * (3 / 2)" using x1 by (intro mult_left_mono) simp_all
  moreover have "f * c * ?U \<le> ?x * ?U * c * ?U" using fc by (rule mult_right_mono) simp
  moreover have "?x * ?U * c * ?U = ?x * (c * (?U * ?U))" by (simp add: mult_ac)
  ultimately have "f * c * ?U \<le> ?x * (3 / 2)" by linarith
  also have "\<dots> < 2 ^ 1023 * (3 / 2)" using x2 by (intro mult_strict_right_mono) simp_all
  also have "\<dots> \<le> (2::rat) ^ 1024" by simp
  finally have hi: "f * c * ?U < 2 ^ 1024" .
  obtain r where r: "round_to_float (f * c) = Finite r" and rl: "f * c * ?L \<le> r" and ru: "r \<le> f * c * ?U"
    using round_to_float_normal[OF lo hi] by blast
  have "?x * ?L * c * ?L \<le> f * c * ?L" using fl c0 by (intro mult_right_mono) simp_all
  moreover have "?x * ?L * c * ?L = ?x * (c * (?L * ?L))" by (simp add: mult_ac)
  ultimately have 1: "?x * (c * (?L * ?L)) \<le> r" using rl by linarith
  have "f * c * ?U \<le> ?x * ?U * c * ?U" using fc by (rule mult_right_mono) simp
  moreover have "?x * ?U * c * ?U = ?x * (c * (?U * ?U))" by (simp add: mult_ac)
  ultimately have 2: "r \<le> ?x * (c * (?U * ?U))" using ru by linarith
  have "num_mul (PInt n) (PFloat (Finite c)) = Inr (PFloat (Finite r))"
    by (simp add: float_op_def f r)
  with 1 2 show ?thesis by blast
qed

lemma scaled_down_le:
  assumes "1 \<le> n" and "n < 2 ^ 1023"
  shows "\<exists>m. scaled_int n (PFloat (Finite (8106479329266893 / 9007199254740992))) = Inr m \<and>
             0 \<le> m \<and> m \<le> n"
proof -
  let ?c = "8106479329266893 / 9007199254740992 :: rat"
  let ?x = "of_int n :: rat"
  obtain r where m: "num_mul (PInt n) (PFloat (Finite ?c)) = Inr (PFloat (Finite r))"
    and rl: "?x * (?c * ((1 - 1 / 2 ^ 53) * (1 - 1 / 2 ^ 53))) \<le> r"
    and ru: "r \<le> ?x * (?c * ((1 + 1 / 2 ^ 53) * (1 + 1 / 2 ^ 53)))"
    using scale_bounds[OF assms, of ?c] by auto
  have x0: "0 \<le> ?x" using assms(1) by simp
  have "?x * (?c * ((1 + 1 / 2 ^ 53) * (1 + 1 / 2 ^ 53))) \<le> ?x * 1"
    using x0 by (intro mult_left_mono) simp_all
  then have r1: "r \<le> ?x" using ru by simp
  have "?x * 0 \<le> ?x * (?c * ((1 - 1 / 2 ^ 53) * (1 - 1 / 2 ^ 53)))"
    using x0 by (intro mult_left_mono) simp_all
  then have r0: "0 \<le> r" using rl by simp
  have "\<lfloor>r\<rfloor> \<le> \<lfloor>?x\<rfloor>" using r1 by (rule floor_mono)
  then have "\<lfloor>r\<rfloor> \<le> n" by simp
  moreover have "0 \<le> \<lfloor>r\<rfloor>" using r0 by simp
  ultimately show ?thesis using r0 by (simp add: scaled_int_def m del: num_mul.simps)
qed

lemma scaled_up_ge:
  assumes "1 \<le> n" and "n < 2 ^ 1023"
  shows "\<exists>m. scaled_int n (PFloat (Finite (2476979795053773 / 2251799813685248))) = Inr m \<and> n \<le> m"
proof -
  let ?c = "2476979795053773 / 2251799813685248 :: rat"
  let ?x = "of_int n :: rat"
  obtain r where m: "num_mul (PInt n) (PFloat (Finite ?c)) = Inr (PFloat (Finite r))"
    and rl: "?x * (?c * ((1 - 1 / 2 ^ 53) * (1 - 1 / 2 ^ 53))) \<le> r"
    using scale_bounds[OF assms, of ?c] by auto
  have x0: "0 \<le> ?x" using assms(1) by simp
  have "?x * 1 \<le> ?x * (?c * ((1 - 1 / 2 ^ 53) * (1 - 1 / 2 ^ 53)))"
    using x0 by (intro mult_left_mono) simp_all
  then have r1: "?x \<le> r" using rl by simp
  then have r0: "0 \<le> r" using x0 by linarith
  have "\<lfloor>?x\<rfloor> \<le> \<lfloor>r\<rfloor>" using r1 by (rule floor_mono)
  then have "n \<le> \<lfloor>r\<rfloor>" by simp
  then show ?thesis using r0 by (simp add: scaled_int_def m del: num_mul.simps)
qed

lemma scaled_int_zero: "scaled_int 0 (PFloat (Finite c)) = Inr 0"
  by (simp add: scaled_int_def float_op_def int_to_float_def)

lemma scaled_intD:
  "scaled_int n c = Inr m \<Longrightarrow> \<exists>p. num_mul (PInt n) c = Inr p \<and> py_int p = Inr m"
  by (auto simp: scaled_int_def split: sum.splits)

lemma build_table_row_count_expectation_eq:
  assumes "scaled_int n (PFloat (Finite (8106479329266893 / 9007199254740992))) = Inr lo"
    and "scaled_int n (PFloat (Finite (2476979795053773 / 2251799813685248))) = Inr hi"
  shows "build_table_row_count_expectation n default_tolerance =
           Inr [ExpectTableRowCountToBeBetween (Some (PInt 0)) None,
                ExpectTableRowCountToBeBetween (Some (PInt (max 0 lo))) (Some (PInt hi))]"
proof -
  obtain p where p: "num_mul (PInt n) (PFloat (Finite (8106479329266893 / 9007199254740992))) = Inr p"
    "py_int p = Inr lo"
    using scaled_intD[OF assms(1)] by blast
  obtain q where q: "num_mul (PInt n) (PFloat (Finite (2476979795053773 / 2251799813685248))) = Inr q"
    "py_int q = Inr hi"
    using scaled_intD[OF assms(2)] by blast
  show ?thesis
    unfolding build_table_row_count_expectation_def
    by (simp add: tolerance_nonneg one_minus_tolerance one_plus_tolerance p q
        del: num_mul.simps num_sub.simps num_add.simps)
qed

text \<open>
  C10. The row count a dataset observes is the number of rows of a table, a non-negative
  integer that fits in 64 bits and so lies far below \<open>2^1023\<close>. For every such row count
  \<open>n\<close> and the default tolerance \<open>0.1\<close>, \<open>_build_table_row_count_expectation\<close> raises
  nothing and, after the probing call, passes \<open>min_value = max(0, int(n * 0.9))\<close> and
  \<open>max_value = int(n * 1.1)\<close>, computed in float arithmetic; these bounds satisfy
  \<open>min_value \<le> n \<le> max_value\<close>.
\<close>

theorem build_table_row_count_expectation_bounds:
  assumes "0 \<le> n" and "n < 2 ^ 1023"
  shows "\<exists>lo hi.
           scaled_int n (PFloat (round_to_float (9 / 10))) = Inr lo \<and>
           scaled_int n (PFloat (round_to_float (11 / 10))) = Inr hi \<and>
           build_table_row_count_expectation n default_tolerance =
             Inr [ExpectTableRowCountToBeBetween (Some (PInt 0)) None,
                  ExpectTableRowCountToBeBetween (Some (PInt (max 0 lo))) (Some (PInt hi))] \<and>
           max 0 lo \<le> n \<and> n \<le> hi"
proof -
  let ?c9 = "PFloat (Finite (8106479329266893 / 9007199254740992))"
  let ?c11 = "PFloat (Finite (2476979795053773 / 2251799813685248))"
  have "\<exists>lo hi. scaled_int n ?c9 = Inr lo \<and> scaled_int n ?c11 = Inr hi \<and> max 0 lo \<le> n \<and> n \<le> hi"
  proof (cases "n = 0")
    case True
    then show ?thesis by (simp add: scaled_int_zero)
  next
    case False
    then have n: "1 \<le> n" using assms(1) by simp
    obtain lo where "scaled_int n ?c9 = Inr lo" "0 \<le> lo" "lo \<le> n"
      using scaled_down_le[OF n assms(2)] by blast
    moreover obtain hi where "scaled_int n ?c11 = Inr hi" "n \<le> hi"
      using scaled_up_ge[OF n assms(2)] by blast
    ultimately show ?thesis by auto
  qed
  then obtain lo hi where "scaled_int n ?c9 = Inr lo" "scaled_int n ?c11 = Inr hi"
    "max 0 lo \<le> n" "n \<le> hi"
    by blast
  then show ?thesis
    using build_table_row_count_expectation_eq[of n lo hi]
    by (simp add: float_literal_nine_tenths float_literal_eleven_tenths)
qed

lemma int_to_float_ten: "int_to_float 10 = Inr (Finite 10)"
  using round_to_float_eq[of 3 10] by (simp add: int_to_float_def float_eval)

lemma scaled_int_ten_down:
  "scaled_int 10 (PFloat (round_to_float (9 / 10))) = Inr 9"
  using round_to_float_eq[of 3 "10 * (8106479329266893 / 9007199254740992)"]
  by (simp add: scaled_int_def float_literal_nine_tenths float_op_def int_to_float_ten float_eval)

lemma scaled_int_ten_up:
  "scaled_int 10 (PFloat (round_to_float (11 / 10))) = Inr 11"
  using round_to_float_eq[of 3 "10 * (2476979795053773 / 2251799813685248)"]
  by (simp add: scaled_int_def float_literal_eleven_tenths float_op_def int_to_float_ten float_eval)

theorem build_table_row_count_expectation_bounds_witness:
  "(0::int) \<le> 10 \<and> (10::int) < 2 ^ 1023 \<and>
   build_table_row_count_expectation 10 default_tolerance =
     Inr [ExpectTableRowCountToBeBetween (Some (PInt 0)) None,
          ExpectTableRowCountToBeBetween (Some (PInt 9)) (Some (PInt 11))]"
  using build_table_row_count_expectation_bounds[of 10]
  by (simp add: scaled_int_ten_down scaled_int_ten_up)

lemma int_to_float_overflow: "int_to_float (2 ^ 1024) = Inl OverflowError"
proof -
  have "round_magnitude (2 ^ 1024) = 2 ^ 1024"
    using round_magnitude_eq[of 1024 "2 ^ 1024"] by (simp add: float_eval)
  then show ?thesis
    by (simp add: int_to_float_def round_to_float_pos overflow_threshold_def)
qed

lemma build_table_row_count_expectation_Inl:
  "int_to_float n = Inl e \<Longrightarrow> build_table_row_count_expectation n default_tolerance = Inl e"
  unfolding build_table_row_count_expectation_def
  by (simp add: tolerance_nonneg one_minus_tolerance float_op_def del: num_sub.simps)

text \<open>
  The bound on the row count is there for the float arithmetic: a Python \<open>int\<close> beyond
  the range of floats, which no table has as its number of rows, would make
  \<open>value * (1 - tolerance)\<close> raise \<open>OverflowError\<close>.
\<close>

lemma build_table_row_count_expectation_overflow:
  "build_table_row_count_expectation (2 ^ 1024) default_tolerance = Inl OverflowError"
  using int_to_float_overflow by (rule build_table_row_count_expectation_Inl)

section \<open>Properties of \<open>_create_expectations_for_numeric_column\<close>\<close>

text \<open>
  Subtracting one from a float never gives more, adding one never less: rounding is
  monotone and leaves a binary64 value unchanged.
\<close>

lemma fsub_one_le:
  assumes "is_float64 f" and "f \<noteq> NaN"
  shows "float_le (fsub f (Finite 1)) f"
proof (cases f)
  case (Finite x)
  have "float_le (round_to_float (x - 1)) (round_to_float x)"
    by (rule round_to_float_mono) simp
  then show ?thesis using assms(1) Finite by (simp add: fsub_def is_float64_def)
qed (use assms in \<open>simp_all add: fsub_def\<close>)

lemma fadd_one_ge:
  assumes "is_float64 f" and "f \<noteq> NaN"
  shows "float_le f (fadd f (Finite 1))"
proof (cases f)
  case (Finite x)
  have "float_le (round_to_float x) (round_to_float (x + 1))"
    by (rule round_to_float_mono) simp
  then show ?thesis using assms(1) Finite by (simp add: is_float64_def)
qed (use assms in simp_all)

text \<open>
  A \<open>numpy.int64\<close> above the least one does not wrap around when one is subtracted, nor
  one below the greatest when one is added.
\<close>

lemma int64_minus_one:
  fixes w :: "64 word"
  assumes "- (2 ^ 63) < sint w"
  shows "sint (w - 1) = sint w - 1"
proof -
  have "sint w < 2 ^ 63" using sint_lt[of w] by simp
  then have "signed_take_bit 63 (sint w - 1) = sint w - 1"
    using assms by (intro signed_take_bit_int_eq_self) simp_all
  then show ?thesis by (simp add: sint_word_ariths)
qed

lemma int64_plus_one:
  fixes w :: "64 word"
  assumes "sint w < 2 ^ 63 - 1"
  shows "sint (w + 1) = sint w + 1"
proof -
  have "- (2 ^ 63) \<le> sint w" using sint_ge[of w] by simp
  then have "signed_take_bit 63 (sint w + 1) = sint w + 1"
    using assms by (intro signed_take_bit_int_eq_self) simp_all
  then show ?thesis by (simp add: sint_word_ariths)
qed

lemma loose_bounds_in_range:
  assumes "loose_bounds v lo hi" and "valid_statistic v" and "\<not> is_nan (Some v)"
  shows "in_range lo hi v"
proof (cases v)
  case (NpInt64 w)
  then have "sint (w - 1) = sint w - 1" "sint (w + 1) = sint w + 1"
    using assms(2) int64_minus_one[of w] int64_plus_one[of w] by simp_all
  then show ?thesis
    using assms(1) NpInt64 by (auto simp: loose_bounds_def in_range_def statistic_le_def)
next
  case (PyNum n)
  show ?thesis
  proof (cases n)
    case (PInt k)
    then show ?thesis
      using assms(1) PyNum by (auto simp: loose_bounds_def in_range_def statistic_le_def)
  next
    case (PFloat f)
    then have f: "is_float64 f" "f \<noteq> NaN" using assms(2,3) PyNum by auto
    have "lo = PyNum (PFloat (fsub f (Finite 1)))" "hi = PyNum (PFloat (fadd f (Finite 1)))"
      using assms(1) PyNum PFloat by (auto simp: loose_bounds_def float_op_def int_to_float_one)
    then show ?thesis
      using fsub_one_le[OF f] fadd_one_ge[OF f] PyNum PFloat
      by (simp add: in_range_def statistic_le_def)
  qed
qed

text \<open>
  The calls of a run, part by part.
\<close>

lemma then_calls_Inr:
  "then_calls a b = Inr cs \<Longrightarrow> \<exists>xs ys. a = Inr xs \<and> b = Inr ys \<and> cs = xs @ ys"
  by (auto simp: then_calls_def split: sum.splits)

lemma range_expectation_Inr:
  assumes "range_expectation expect column observed = Inr cs"
  shows "cs = [expect column None None] \<or>
         (\<exists>v lo hi. observed = Some v \<and> \<not> is_nan (Some v) \<and> loose_bounds v lo hi \<and>
            cs = [expect column None None, expect column (Some lo) (Some hi)])"
  using assms
  by (auto simp: range_expectation_def loose_bounds_def split: if_splits option.splits sum.splits)

lemma value_ranges_ok:
  "value_ranges vs = Inr ranges \<Longrightarrow> list_all valid_obs vs \<Longrightarrow>
   list_all2 quantile_range_ok vs ranges"
proof (induction vs arbitrary: ranges)
  case Nil
  then show ?case by simp
next
  case (Cons v vs)
  then obtain x where v: "v = Some x" by (cases v) auto
  from Cons.prems(1) obtain lo hi rest where
    lb: "loose_bounds x lo hi" and rest: "value_ranges vs = Inr rest"
    and r: "ranges = (Some lo, Some hi) # rest"
    unfolding v by (auto simp: loose_bounds_def split: sum.splits)
  have "is_nan (Some x) \<or> in_range lo hi x"
    using loose_bounds_in_range[OF lb] Cons.prems(2) v by auto
  moreover have "list_all2 quantile_range_ok vs rest"
    using Cons.IH[OF rest] Cons.prems(2) by simp
  ultimately show ?case using lb by (simp add: v r)
qed

lemma non_nullity_Inr:
  "create_non_nullity_expectations ds column = Inr cs \<Longrightarrow>
   c \<in> set cs \<Longrightarrow> \<exists>m. c = ExpectColumnValuesToNotBeNull column m"
  by (auto simp: create_non_nullity_expectations_def Let_def
      split: if_splits option.splits sum.splits)

lemma range_member:
  assumes "range_expectation expect column observed = Inr cs" and "c \<in> set cs"
    and "valid_obs observed"
  shows "c = expect column None None \<or>
         (\<exists>v lo hi. observed = Some v \<and> loose_bounds v lo hi \<and> in_range lo hi v \<and>
            c = expect column (Some lo) (Some hi))"
proof -
  from range_expectation_Inr[OF assms(1)] show ?thesis
  proof
    assume "cs = [expect column None None]"
    then show ?thesis using assms(2) by simp
  next
    assume "\<exists>v lo hi. observed = Some v \<and> \<not> is_nan (Some v) \<and> loose_bounds v lo hi \<and>
              cs = [expect column None None, expect column (Some lo) (Some hi)]"
    then obtain v lo hi where v: "observed = Some v" "\<not> is_nan (Some v)" "loose_bounds v lo hi"
      and cs: "cs = [expect column None None, expect column (Some lo) (Some hi)]"
      by blast
    have "in_range lo hi v" using loose_bounds_in_range[OF v(3) _ v(2)] assms(3) v(1) by simp
    then show ?thesis using assms(2) v cs by auto
  qed
qed

lemma quantile_member:
  assumes "quantile_expectation ds column = Inr cs" and "c \<in> set cs"
    and "list_all valid_obs (observed_values (quantile_results ds))"
  shows "c = SetConfigValue ''interactive_evaluation'' False \<or>
         c = SetConfigValue ''interactive_evaluation'' True \<or>
         (\<exists>qs ranges. c = ExpectColumnQuantileValuesToBeBetween column qs ranges \<and>
            (ranges = replicate 5 (None, None) \<or>
             list_all2 quantile_range_ok (observed_values (quantile_results ds)) ranges))"
  using assms value_ranges_ok[of "observed_values (quantile_results ds)"]
  by (auto simp: quantile_expectation_def Let_def split: if_splits sum.splits)

text \<open>
  Where the ranges are right. In a run of \<open>_create_expectations_for_numeric_column\<close> that
  raises nothing, on well-formed observed values, every call with bounds for the minimum,
  maximum, mean or median passes \<open>observed - 1\<close> and \<open>observed + 1\<close> for the value the
  dataset observed, and this range contains the observed value. Every quantile call is the
  probing call or passes, for each observed quantile value \<open>v\<close>, the range from \<open>v - 1\<close>
  to \<open>v + 1\<close>, which contains \<open>v\<close> unless \<open>v\<close> is NaN.
\<close>

lemma numeric_column_loose_ranges:
  assumes "create_expectations_for_numeric_column ds column = Inr calls"
    and "valid_results ds"
  shows "(\<forall>c lo hi. ExpectColumnMinToBeBetween c (Some lo) (Some hi) \<in> set calls \<longrightarrow>
            (\<exists>v. observed_min ds = Some v \<and> loose_bounds v lo hi \<and> in_range lo hi v)) \<and>
         (\<forall>c lo hi. ExpectColumnMaxToBeBetween c (Some lo) (Some hi) \<in> set calls \<longrightarrow>
            (\<exists>v. observed_max ds = Some v \<and> loose_bounds v lo hi \<and> in_range lo hi v)) \<and>
         (\<forall>c lo hi. ExpectColumnMeanToBeBetween c (Some lo) (Some hi) \<in> set calls \<longrightarrow>
            (\<exists>v. observed_mean ds = Some v \<and> loose_bounds v lo hi \<and> in_range lo hi v)) \<and>
         (\<forall>c lo hi. ExpectColumnMedianToBeBetween c (Some lo) (Some hi) \<in> set calls \<longrightarrow>
            (\<exists>v. observed_median ds = Some v \<and> loose_bounds v lo hi \<and> in_range lo hi v)) \<and>
         (\<forall>c qs ranges. ExpectColumnQuantileValuesToBeBetween c qs ranges \<in> set calls \<longrightarrow>
            ranges = replicate 5 (None, None) \<or>
            list_all2 quantile_range_ok (observed_values (quantile_results ds)) ranges)"
proof -
  obtain nn r1 where nn: "create_non_nullity_expectations ds column = Inr nn"
    and 1: "then_calls (range_expectation ExpectColumnMinToBeBetween column (observed_min ds))
             (then_calls (range_expectation ExpectColumnMaxToBeBetween column (observed_max ds))
             (then_calls (range_expectation ExpectColumnMeanToBeBetween column (observed_mean ds))
             (then_calls (range_expectation ExpectColumnMedianToBeBetween column (observed_median ds))
                         (quantile_expectation ds column)))) = Inr r1"
    and c1: "calls = nn @ r1"
    using then_calls_Inr[OF assms(1)[unfolded create_expectations_for_numeric_column_def]] by blast
  obtain mn r2 where mn: "range_expectation ExpectColumnMinToBeBetween column (observed_min ds) = Inr mn"
    and 2: "then_calls (range_expectation ExpectColumnMaxToBeBetween column (observed_max ds))
             (then_calls (range_expectation ExpectColumnMeanToBeBetween column (observed_mean ds))
             (then_calls (range_expectation ExpectColumnMedianToBeBetween column (observed_median ds))
                         (quantile_expectation ds column))) = Inr r2"
    and c2: "r1 = mn @ r2"
    using then_calls_Inr[OF 1] by blast
  obtain mx r3 where mx: "range_expectation ExpectColumnMaxToBeBetween column (observed_max ds) = Inr mx"
    and 3: "then_calls (range_expectation ExpectColumnMeanToBeBetween column (observed_mean ds))
             (then_calls (range_expectation ExpectColumnMedianToBeBetween column (observed_median ds))
                         (quantile_expectation ds column)) = Inr r3"
    and c3: "r2 = mx @ r3"
    using then_calls_Inr[OF 2] by blast
  obtain me r4 where me: "range_expectation ExpectColumnMeanToBeBetween column (observed_mean ds) = Inr me"
    and 4: "then_calls (range_expectation ExpectColumnMedianToBeBetween column (observed_median ds))
                         (quantile_expectation ds column) = Inr r4"
    and c4: "r3 = me @ r4"
    using then_calls_Inr[OF 3] by blast
  obtain md qu where md: "range_expectation ExpectColumnMedianToBeBetween column (observed_median ds) = Inr md"
    and qu: "quantile_expectation ds column = Inr qu"
    and c5: "r4 = md @ qu"
    using then_calls_Inr[OF 4] by blast
  have calls: "set calls = set nn \<union> set mn \<union> set mx \<union> set me \<union> set md \<union> set qu"
    by (auto simp: c1 c2 c3 c4 c5)
  note v = assms(2)[unfolded valid_results_def]
  have vmn: "valid_obs (observed_min ds)" and vmx: "valid_obs (observed_max ds)"
    and vme: "valid_obs (observed_mean ds)" and vmd: "valid_obs (observed_median ds)"
    and vq: "list_all valid_obs (observed_values (quantile_results ds))"
    using v by simp_all
  note members = non_nullity_Inr[OF nn] range_member[OF mn _ vmn] range_member[OF mx _ vmx]
    range_member[OF me _ vme] range_member[OF md _ vmd] quantile_member[OF qu _ vq]
  have a: "\<And>c lo hi. ExpectColumnMinToBeBetween c (Some lo) (Some hi) \<in> set calls \<Longrightarrow>
            (\<exists>v. observed_min ds = Some v \<and> loose_bounds v lo hi \<and> in_range lo hi v)"
    unfolding calls using members by fastforce
  have b: "\<And>c lo hi. ExpectColumnMaxToBeBetween c (Some lo) (Some hi) \<in> set calls \<Longrightarrow>
            (\<exists>v. observed_max ds = Some v \<and> loose_bounds v lo hi \<and> in_range lo hi v)"
    unfolding calls using members by fastforce
  have c: "\<And>c lo hi. ExpectColumnMeanToBeBetween c (Some lo) (Some hi) \<in> set calls \<Longrightarrow>
            (\<exists>v. observed_mean ds = Some v \<and> loose_bounds v lo hi \<and> in_range lo hi v)"
    unfolding calls using members by fastforce
  have d: "\<And>c lo hi. ExpectColumnMedianToBeBetween c (Some lo) (Some hi) \<in> set calls \<Longrightarrow>
            (\<exists>v. observed_median ds = Some v \<and> loose_bounds v lo hi \<and> in_range lo hi v)"
    unfolding calls using members by fastforce
  have e: "\<And>c qs ranges. ExpectColumnQuantileValuesToBeBetween c qs ranges \<in> set calls \<Longrightarrow>
            ranges = replicate 5 (None, None) \<or>
            list_all2 quantile_range_ok (observed_values (quantile_results ds)) ranges"
    unfolding calls using members by fastforce
  from a b c d e show ?thesis by blast
qed

text \<open>
  A run on a pandas column of integers: minimum and maximum are \<open>numpy.int64\<close>, the mean
  4.5 gets the bounds 3.5 and 5.5, the median is NaN and gets no bounds.
\<close>

lemma float_seven_halves: "round_to_float (7 / 2) = Finite (7 / 2)"
  using round_to_float_eq[of 1 "7 / 2"] by (simp add: float_eval)

lemma float_nine_halves: "round_to_float (9 / 2) = Finite (9 / 2)"
  using round_to_float_eq[of 2 "9 / 2"] by (simp add: float_eval)

lemma float_eleven_halves: "round_to_float (11 / 2) = Finite (11 / 2)"
  using round_to_float_eq[of 2 "11 / 2"] by (simp add: float_eval)

lemma numeric_column_example_run:
  "create_expectations_for_numeric_column
     \<lparr>not_null_success = True, unexpected_percent = Some (PFloat (Finite 0)),
      observed_min = Some (NpInt64 1), observed_max = Some (NpInt64 9),
      observed_mean = Some (PyNum (PFloat (Finite (9 / 2)))),
      observed_median = Some (PyNum (PFloat NaN)),
      quantile_results = \<lparr>exception_info = None, observed_quantiles = [PFloat (Finite (1 / 2))],
                           observed_values = [Some (PyNum (PInt 4))]\<rparr>\<rparr> ''price'' =
   Inr [ExpectColumnValuesToNotBeNull ''price'' None,
        ExpectColumnMinToBeBetween ''price'' None None,
        ExpectColumnMinToBeBetween ''price'' (Some (NpInt64 0)) (Some (NpInt64 2)),
        ExpectColumnMaxToBeBetween ''price'' None None,
        ExpectColumnMaxToBeBetween ''price'' (Some (NpInt64 8)) (Some (NpInt64 10)),
        ExpectColumnMeanToBeBetween ''price'' None None,
        ExpectColumnMeanToBeBetween ''price'' (Some (PyNum (PFloat (Finite (7 / 2)))))
          (Some (PyNum (PFloat (Finite (11 / 2))))),
        ExpectColumnMedianToBeBetween ''price'' None None,
        ExpectColumnQuantileValuesToBeBetween ''price''
          [PFloat (round_to_float (1 / 20)), PFloat (round_to_float (1 / 4)),
           PFloat (round_to_float (1 / 2)), PFloat (round_to_float (3 / 4)),
           PFloat (round_to_float (19 / 20))]
          (replicate 5 (None, None)),
        SetConfigValue ''interactive_evaluation'' False,
        ExpectColumnQuantileValuesToBeBetween ''price'' [PFloat (Finite (1 / 2))]
          [(Some (PyNum (PInt 3)), Some (PyNum (PInt 5)))],
        SetConfigValue ''interactive_evaluation'' True]"
  by (simp add: create_expectations_for_numeric_column_def create_non_nullity_expectations_def
      range_expectation_def quantile_expectation_def then_calls_def float_op_def
      int_to_float_one fsub_def float_seven_halves float_eleven_halves)

lemma numeric_column_example_ranges:
  "valid_results
     \<lparr>not_null_success = True, unexpected_percent = Some (PFloat (Finite 0)),
      observed_min = Some (NpInt64 1), observed_max = Some (NpInt64 9),
      observed_mean = Some (PyNum (PFloat (Finite (9 / 2)))),
      observed_median = Some (PyNum (PFloat NaN)),
      quantile_results = \<lparr>exception_info = None, observed_quantiles = [PFloat (Finite (1 / 2))],
                           observed_values = [Some (PyNum (PInt 4))]\<rparr>\<rparr> \<and>
   in_range (NpInt64 0) (NpInt64 2) (NpInt64 1) \<and>
   in_range (PyNum (PFloat (Finite (7 / 2)))) (PyNum (PFloat (Finite (11 / 2))))
     (PyNum (PFloat (Finite (9 / 2)))) \<and>
   list_all2 quantile_range_ok [Some (PyNum (PInt 4))] [(Some (PyNum (PInt 3)), Some (PyNum (PInt 5)))]"
proof -
  let ?ds = "\<lparr>not_null_success = True, unexpected_percent = Some (PFloat (Finite 0)),
      observed_min = Some (NpInt64 1), observed_max = Some (NpInt64 9),
      observed_mean = Some (PyNum (PFloat (Finite (9 / 2)))),
      observed_median = Some (PyNum (PFloat NaN)),
      quantile_results = \<lparr>exception_info = None, observed_quantiles = [PFloat (Finite (1 / 2))],
                           observed_values = [Some (PyNum (PInt 4))]\<rparr>\<rparr>"
  have valid: "valid_results ?ds"
    by (simp add: valid_results_def is_float64_def float_nine_halves)
  note ranges = numeric_column_loose_ranges[OF numeric_column_example_run valid]
  have "\<exists>v. observed_min ?ds = Some v \<and> loose_bounds v (NpInt64 0) (NpInt64 2) \<and>
             in_range (NpInt64 0) (NpInt64 2) v"
    using ranges by simp
  then have 1: "in_range (NpInt64 0) (NpInt64 2) (NpInt64 1)" by simp
  have "\<exists>v. observed_mean ?ds = Some v \<and>
             loose_bounds v (PyNum (PFloat (Finite (7 / 2)))) (PyNum (PFloat (Finite (11 / 2)))) \<and>
             in_range (PyNum (PFloat (Finite (7 / 2)))) (PyNum (PFloat (Finite (11 / 2)))) v"
    using ranges by simp
  then have 2: "in_range (PyNum (PFloat (Finite (7 / 2)))) (PyNum (PFloat (Finite (11 / 2))))
     (PyNum (PFloat (Finite (9 / 2))))"
    by simp
  have 3: "list_all2 quantile_range_ok [Some (PyNum (PInt 4))]
             [(Some (PyNum (PInt 3)), Some (PyNum (PInt 5)))]"
    using ranges by (simp add: eval_nat_numeral)
  from valid 1 2 3 show ?thesis by simp
qed

text \<open>
  C8 fails on the code. The blocks for the minimum, maximum, mean and median skip a NaN
  observed value (\<open>if not _is_nan(observed)\<close>); the quantile block has no such check.
  For an observed quantile value NaN the range it passes is from NaN to NaN, and no
  comparison with NaN holds: the emitted range does not contain the observed value.
\<close>

theorem numeric_column_nan_quantile:
  "create_expectations_for_numeric_column
     \<lparr>not_null_success = True, unexpected_percent = Some (PFloat (Finite 0)),
      observed_min = Some (PyNum (PInt 1)), observed_max = Some (PyNum (PInt 9)),
      observed_mean = Some (PyNum (PInt 5)), observed_median = Some (PyNum (PInt 5)),
      quantile_results = \<lparr>exception_info = None, observed_quantiles = [PFloat (Finite (1 / 2))],
                           observed_values = [Some (PyNum (PFloat NaN))]\<rparr>\<rparr> ''price'' =
   Inr [ExpectColumnValuesToNotBeNull ''price'' None,
        ExpectColumnMinToBeBetween ''price'' None None,
        ExpectColumnMinToBeBetween ''price'' (Some (PyNum (PInt 0))) (Some (PyNum (PInt 2))),
        ExpectColumnMaxToBeBetween ''price'' None None,
        ExpectColumnMaxToBeBetween ''price'' (Some (PyNum (PInt 8))) (Some (PyNum (PInt 10))),
        ExpectColumnMeanToBeBetween ''price'' None None,
        ExpectColumnMeanToBeBetween ''price'' (Some (PyNum (PInt 4))) (Some (PyNum (PInt 6))),
        ExpectColumnMedianToBeBetween ''price'' None None,
        ExpectColumnMedianToBeBetween ''price'' (Some (PyNum (PInt 4))) (Some (PyNum (PInt 6))),
        ExpectColumnQuantileValuesToBeBetween ''price''
          [PFloat (round_to_float (1 / 20)), PFloat (round_to_float (1 / 4)),
           PFloat (round_to_float (1 / 2)), PFloat (round_to_float (3 / 4)),
           PFloat (round_to_float (19 / 20))]
          (replicate 5 (None, None)),
        SetConfigValue ''interactive_evaluation'' False,
        ExpectColumnQuantileValuesToBeBetween ''price'' [PFloat (Finite (1 / 2))]
          [(Some (PyNum (PFloat NaN)), Some (PyNum (PFloat NaN)))],
        SetConfigValue ''interactive_evaluation'' True] \<and>
   \<not> in_range (PyNum (PFloat NaN)) (PyNum (PFloat NaN)) (PyNum (PFloat NaN))"
  by (simp add: create_expectations_for_numeric_column_def create_non_nullity_expectations_def
      range_expectation_def quantile_expectation_def then_calls_def float_op_def
      int_to_float_one fsub_def in_range_def statistic_le_def)

text \<open>
  The ranges around a \<open>numpy.int64\<close> wrap around at the ends: for the observed minimum
  \<open>-2^63\<close> the lower bound \<open>observed - 1\<close> is \<open>2^63 - 1\<close>, above the upper bound, and
  the range is empty.
\<close>

lemma range_expectation_int64_wraps:
  "range_expectation ExpectColumnMinToBeBetween ''price''
     (Some (NpInt64 (- 9223372036854775808))) =
   Inr [ExpectColumnMinToBeBetween ''price'' None None,
        ExpectColumnMinToBeBetween ''price'' (Some (NpInt64 9223372036854775807))
          (Some (NpInt64 (- 9223372036854775807)))] \<and>
   \<not> in_range (NpInt64 9223372036854775807) (NpInt64 (- 9223372036854775807))
       (NpInt64 (- 9223372036854775808))"
  by (simp add: range_expectation_def in_range_def statistic_le_def)

end
